theory Spec2Isabelle
  imports Complex_Main "HOL-Library.Word" "HOL-Library.Sublist"
begin

unbundle bit_operations_syntax

section \<open>Data model of the driver\<close>

text \<open>
  The definitions below embed the parts of \<^verbatim>\<open>Driver.ts\<close> that decide how
  transactions are requeued when a node changes its power state, how inbound commands are
  unwrapped, how decode errors are answered, how Transport Service sessions are set up, how
  options are validated and how \<^verbatim>\<open>sendMessage\<close> treats dead nodes.
  Enumerations imported from other packages carry the members the driver mentions.
\<close>

datatype MessagePriority =
    Priority_Nonce
  | Priority_Supervision
  | Priority_Controller
  | Priority_Ping
  | Priority_MultistepController
  | Priority_Handshake
  | Priority_PreTransmitHandshake
  | Priority_NodeQuery
  | Priority_Normal
  | Priority_Poll
  | Priority_WakeUp

datatype NodeStatus = Unknown | Asleep | Awake | Dead | Alive

datatype ZWaveErrorCodes =
    PacketFormat_Truncated
  | PacketFormat_Invalid
  | PacketFormat_Checksum
  | PacketFormat_InvalidPayload
  | Deserialization_NotImplemented
  | CC_NotImplemented
  | CC_NotSupported
  | Driver_NotReady
  | Driver_InvalidOptions
  | Driver_NoPriority
  | Driver_NotSupported
  | Driver_NoSecurity
  | Driver_Destroyed
  | Driver_Failed
  | Controller_Timeout
  | Controller_NodeTimeout
  | Controller_MessageDropped
  | Controller_MessageExpired
  | Controller_ResponseNOK
  | Controller_CallbackNOK
  | Controller_NodeRemoved
  | Security2CC_NotInitialized
  | Security2CC_NoSPAN
  | Security2CC_CannotDecode
  | Argument_Invalid

text \<open>A thrown value: a \<^verbatim>\<open>ZWaveError\<close> with its code, or any other \<^verbatim>\<open>Error\<close>
  with its message.\<close>

datatype JSError = ZWaveError ZWaveErrorCodes | OtherError string

fun isZWaveError :: "JSError \<Rightarrow> bool" where
  "isZWaveError (ZWaveError c) = True"
| "isZWaveError (OtherError m) = False"

datatype CommandClasses =
    CC_Supervision
  | CC_Security_2
  | CC_Security
  | CC_CRC_16_Encapsulation
  | CC_Multi_Channel
  | CC_Multi_Command
  | CC_Transport_Service
  | CC_Wake_Up
  | CC_No_Operation
  | CC_Other nat

text \<open>The classes the driver tests a command against with \<^verbatim>\<open>instanceof\<close>.\<close>

datatype CCClass =
    WakeUpCCNoMoreInformation
  | Security2CCNonceReport
  | InvalidCC
  | OtherCCClass

text \<open>
  A command class instance. \<^verbatim>\<open>encapsulated\<close> is absent for a leaf command, one command
  for an encapsulating command class and an array of commands for a multi-encapsulating
  one. \<^verbatim>\<open>encapsulationFlags\<close> is a bit mask, handled with the 32-bit operators of
  JavaScript.
\<close>

datatype CommandClass =
  CommandClass (ccId: CommandClasses) (ccClass: CCClass)
    (encapsulationFlags: "32 word") (encapsulated: Encapsulated)
and Encapsulated =
    NotEncapsulating
  | Single CommandClass
  | Multiple "CommandClass list"

fun isEncapsulatingCommandClass :: "CommandClass \<Rightarrow> bool" where
  "isEncapsulatingCommandClass (CommandClass i k f (Single c)) = True"
| "isEncapsulatingCommandClass (CommandClass i k f e) = False"

fun isMultiEncapsulatingCommandClass :: "CommandClass \<Rightarrow> bool" where
  "isMultiEncapsulatingCommandClass (CommandClass i k f (Multiple cs)) = True"
| "isMultiEncapsulatingCommandClass (CommandClass i k f e) = False"

text \<open>The concrete message classes the driver distinguishes.\<close>

datatype MessageClass =
    SendDataRequest
  | SendDataBridgeRequest
  | SendDataMulticastRequest
  | SendDataMulticastBridgeRequest
  | ApplicationCommandRequest
  | OtherMessage

text \<open>
  A serial message. \<^verbatim>\<open>nodeId\<close> is the result of \<^verbatim>\<open>getNodeId()\<close>, \<^verbatim>\<open>command\<close> is
  present exactly for command class containers, \<^verbatim>\<open>ping\<close> is the answer of the imported
  predicate \<^verbatim>\<open>messageIsPing\<close>, \<^verbatim>\<open>nodeQuery\<close> the answer of \<^verbatim>\<open>isNodeQuery\<close>, and
  \<^verbatim>\<open>defaultPriority\<close> the answer of \<^verbatim>\<open>getDefaultPriority\<close>. \<^verbatim>\<open>supervisionSessionId\<close>
  is the answer of \<^verbatim>\<open>SupervisionCC.getSessionId\<close> for the command of the message.
\<close>

record Message =
  messageClass :: MessageClass
  nodeId :: "nat option"
  command :: "CommandClass option"
  ping :: bool
  nodeQuery :: bool
  defaultPriority :: "MessagePriority option"
  supervisionSessionId :: "nat option"

definition getNodeId :: "Message \<Rightarrow> nat option" where
  "getNodeId msg = nodeId msg"

definition messageIsPing :: "Message \<Rightarrow> bool" where
  "messageIsPing msg = ping msg"

definition isNodeQuery :: "Message \<Rightarrow> bool" where
  "isNodeQuery msg = nodeQuery msg"

definition isCommandClassContainer :: "Message \<Rightarrow> bool" where
  "isCommandClassContainer msg = (command msg \<noteq> None)"

record Transaction =
  message :: Message
  priority :: MessagePriority
  tag :: "string option"
  changeNodeStatusOnTimeout :: bool

text \<open>The verdict of a reducer on one transaction. The texts of error messages and of
  log lines play no part in what follows, so a rejection carries its error code only.\<close>

datatype TransactionReducerResult =
    Keep
  | Drop
  | Resolve "Message option"
  | Requeue "MessagePriority option" "string option"
  | Reject ZWaveErrorCodes

type_synonym TransactionReducer = "Transaction \<Rightarrow> TransactionReducerResult"

section \<open>Moving transactions when a node falls asleep or wakes up\<close>

text \<open>\<^verbatim>\<open>mayMoveToWakeupQueue\<close>: the cases of the \<^verbatim>\<open>switch (true)\<close> in their order.\<close>

definition commandIsWakeUpCCNoMoreInformation :: "Message \<Rightarrow> bool" where
  "commandIsWakeUpCCNoMoreInformation msg =
     (case command msg of
        None \<Rightarrow> False
      | Some c \<Rightarrow> ccClass c = WakeUpCCNoMoreInformation)"

definition mayMoveToWakeupQueue :: "Transaction \<Rightarrow> bool" where
  "mayMoveToWakeupQueue transaction =
     (let msg = message transaction in
      if messageIsPing msg then False
      else if priority transaction = Priority_Nonce then False
      else if priority transaction = Priority_Supervision then False
      else if isCommandClassContainer msg \<and> commandIsWakeUpCCNoMoreInformation msg then False
      else if tag transaction = Some ''compat'' then False
      else True)"

text \<open>The reducer built by \<^verbatim>\<open>moveMessagesToWakeupQueue\<close> for a node id.\<close>

definition moveMessagesToWakeupQueue_reducer :: "nat \<Rightarrow> TransactionReducer" where
  "moveMessagesToWakeupQueue_reducer nid transaction =
     (let reject = Reject Controller_MessageDropped;
          requeue = Requeue (Some Priority_WakeUp) None;
          requeueAndTagAsInterview = Requeue (Some Priority_WakeUp) (Some ''interview'');
          msg = message transaction
      in if getNodeId msg \<noteq> Some nid then Keep
         else if mayMoveToWakeupQueue transaction
              then (if priority transaction = Priority_NodeQuery
                    then requeueAndTagAsInterview else requeue)
              else reject)"


text \<open>
  Modelled from the spec: the send thread (\<^verbatim>\<open>SendThreadMachine.ts\<close>) is not part of the
  sources at hand. The spec describes a reducer as a function from a transaction to one of
  keep, drop, reject, requeue (with a new priority and optionally a new tag) and resolve,
  applied to every queued and active transaction. \<^verbatim>\<open>requeued\<close> gives the transaction as it
  re-enters the queue: a priority or tag that the verdict leaves out is kept.
\<close>

definition requeued :: "Transaction \<Rightarrow> MessagePriority option \<Rightarrow> string option \<Rightarrow> Transaction" where
  "requeued t p g =
     t\<lparr> priority := (case p of None \<Rightarrow> priority t | Some p' \<Rightarrow> p'),
        tag := (case g of None \<Rightarrow> tag t | Some g' \<Rightarrow> Some g') \<rparr>"

section \<open>Unwrapping inbound commands\<close>

text \<open>
  Modelled from the spec: the enumeration \<^verbatim>\<open>EncapsulationFlags\<close> and the method
  \<^verbatim>\<open>setEncapsulationFlag\<close> belong to other packages and are not part of the sources at
  hand. The spec calls \<^verbatim>\<open>encapsulation_flags\<close> a bit mask recording which wrappers have
  been applied; each member the driver names is one bit of its own, and setting a flag
  ORs its bit into the mask (clearing removes it).
\<close>

definition EncapsulationFlags_None :: "32 word" where
  "EncapsulationFlags_None = 0"

definition EncapsulationFlags_Supervision :: "32 word" where
  "EncapsulationFlags_Supervision = 1"

definition EncapsulationFlags_Security :: "32 word" where
  "EncapsulationFlags_Security = 2"

definition EncapsulationFlags_CRC16 :: "32 word" where
  "EncapsulationFlags_CRC16 = 4"

fun setEncapsulationFlag :: "32 word \<Rightarrow> bool \<Rightarrow> CommandClass \<Rightarrow> CommandClass" where
  "setEncapsulationFlag flag active (CommandClass i k f e) =
     CommandClass i k (if active then f OR flag else f AND NOT flag) e"

text \<open>
  One round of the loop of \<^verbatim>\<open>unwrapCommands\<close>: the flags of the wrapper are copied to
  the unwrapped command, then the \<^verbatim>\<open>switch\<close> on the wrapper's \<^verbatim>\<open>ccId\<close> adds a flag.
  The \<^verbatim>\<open>switch\<close> has three cases and no default.
\<close>

fun copyEncapsulationFlags :: "CommandClass \<Rightarrow> CommandClass \<Rightarrow> CommandClass" where
  "copyEncapsulationFlags outer (CommandClass i k f e) =
     CommandClass i k (encapsulationFlags outer) e"

definition unwrapOne :: "CommandClass \<Rightarrow> CommandClass \<Rightarrow> CommandClass" where
  "unwrapOne outer inner =
     (let unwrapped = copyEncapsulationFlags outer inner
      in case ccId outer of
           CC_Supervision \<Rightarrow> setEncapsulationFlag EncapsulationFlags_Supervision True unwrapped
         | CC_Security_2 \<Rightarrow> setEncapsulationFlag EncapsulationFlags_Security True unwrapped
         | CC_Security \<Rightarrow> setEncapsulationFlag EncapsulationFlags_Security True unwrapped
         | CC_CRC_16_Encapsulation \<Rightarrow> setEncapsulationFlag EncapsulationFlags_CRC16 True unwrapped
         | _ \<Rightarrow> unwrapped)"

fun depth :: "CommandClass \<Rightarrow> nat" where
  "depth (CommandClass i k f (Single c)) = Suc (depth c)"
| "depth (CommandClass i k f e) = 0"

datatype LogLevel = Level_error | Level_warn | Level_verbose | Level_debug | Level_info

text \<open>
  The loop of \<^verbatim>\<open>unwrapCommands\<close> on \<^verbatim>\<open>msg.command\<close>. The result is the command the
  message holds when the function returns, and the lines it printed to the driver log.
\<close>

function unwrapLoop :: "CommandClass \<Rightarrow> CommandClass \<times> (string \<times> LogLevel) list" where
  "unwrapLoop c =
     (if isEncapsulatingCommandClass c \<or> isMultiEncapsulatingCommandClass c
      then (case encapsulated c of
              Multiple cs \<Rightarrow>
                (c, [(''Received a command that contains multiple CommandClasses. This is not supported yet! Discarding the message...'', Level_warn)])
            | Single unwrapped \<Rightarrow> unwrapLoop (unwrapOne c unwrapped)
            | NotEncapsulating \<Rightarrow> (c, []))
      else (c, []))"
  by pat_completeness auto
termination
proof (relation "measure depth")
  show "wf (measure depth)" by simp
next
  fix c unwrapped
  assume "encapsulated c = Single unwrapped"
  moreover have "depth (unwrapOne c unwrapped) = depth unwrapped"
    by (cases unwrapped; cases "encapsulated unwrapped")
       (simp_all add: unwrapOne_def Let_def split: CommandClasses.splits)
  ultimately show "(unwrapOne c unwrapped, c) \<in> measure depth"
    by (cases c) simp
qed

declare unwrapLoop.simps [simp del]

definition unwrapCommands :: "Message \<Rightarrow> Message \<times> (string \<times> LogLevel) list" where
  "unwrapCommands msg =
     (case command msg of
        None \<Rightarrow> (msg, [])
      | Some c \<Rightarrow> (let (c', lg) = unwrapLoop c in (msg\<lparr>command := Some c'\<rparr>, lg)))"

text \<open>
  What a stack of wrappers looks like from outside: the command classes of the
  single-command wrappers from the outermost inwards, and the command below them, which
  is a leaf or a multi-encapsulating wrapper.
\<close>

fun wrappers :: "CommandClass \<Rightarrow> CommandClasses list" where
  "wrappers (CommandClass i k f (Single c)) = i # wrappers c"
| "wrappers (CommandClass i k f e) = []"

fun core :: "CommandClass \<Rightarrow> CommandClass" where
  "core (CommandClass i k f (Single c)) = core c"
| "core (CommandClass i k f e) = CommandClass i k f e"

text \<open>The flag that \<^verbatim>\<open>unwrapCommands\<close> adds for a wrapper of the given command class.\<close>

fun wrapperFlag :: "CommandClasses \<Rightarrow> 32 word" where
  "wrapperFlag CC_Supervision = EncapsulationFlags_Supervision"
| "wrapperFlag CC_Security_2 = EncapsulationFlags_Security"
| "wrapperFlag CC_Security = EncapsulationFlags_Security"
| "wrapperFlag CC_CRC_16_Encapsulation = EncapsulationFlags_CRC16"
| "wrapperFlag other = EncapsulationFlags_None"

fun setFlags :: "32 word \<Rightarrow> CommandClass \<Rightarrow> CommandClass" where
  "setFlags g (CommandClass i k f e) = CommandClass i k g e"

text \<open>The flags of the outermost command with the flag of every wrapper of the stack
  added, from the outermost inwards.\<close>

definition strippedFlags :: "CommandClass \<Rightarrow> 32 word" where
  "strippedFlags c = fold (\<lambda>i g. g OR wrapperFlag i) (wrappers c) (encapsulationFlags c)"

section \<open>Nodes, controller and driver state\<close>

text \<open>
  The fields of a node that the driver reads here. \<^verbatim>\<open>supportsWakeUpCC\<close> stands for
  \<^verbatim>\<open>node.supportsCC(CommandClasses["Wake Up"])\<close> and \<^verbatim>\<open>interviewStageBeforeNodeInfo\<close>
  for \<^verbatim>\<open>node.interviewStage < InterviewStage.NodeInfo\<close>.
\<close>

record ZWaveNode =
  node_id :: nat
  status :: NodeStatus
  canSleep :: bool
  supportsWakeUpCC :: bool
  interviewStageBeforeNodeInfo :: bool

record ZWaveController =
  nodes :: "nat \<rightharpoonup> ZWaveNode"
  bootstrappingS2NodeId :: "nat option"
  isFunctionSupported :: "MessageClass \<Rightarrow> bool"

datatype SPANState = SPANState_None | SPANState_RemoteEI | SPANState_LocalEI | SPANState_SPAN

record SecurityManager2 =
  tempKeys :: "nat set"
  getSPANState :: "nat \<Rightarrow> SPANState"

text \<open>\<^verbatim>\<open>queue\<close> and \<^verbatim>\<open>activeTransactions\<close> are the two collections of the send thread's
  context that \<^verbatim>\<open>hasPendingTransactions\<close> reads.\<close>

record Driver =
  wasStarted :: bool
  isOpen :: bool
  wasDestroyed :: bool
  controller :: "ZWaveController option"
  securityManager2 :: "SecurityManager2 option"
  queue :: "Transaction list"
  activeTransactions :: "Transaction list"

datatype MessageHeaders = ACK | NAK | CAN

datatype KEXFailType = BootstrappingCanceled | KEXFail_Other nat

text \<open>What a handler does to the outside world, in the order in which it does it.\<close>

datatype Effect =
    WriteHeader MessageHeaders
  | DriverLogPrint LogLevel
  | DriverLogMessage
  | ControllerLogNode nat LogLevel
  | SendThreadReduce TransactionReducer
  | TransactionRejected Transaction ZWaveErrorCodes
  | IncrementStatistics nat string
  | ControllerIncrementStatistics string
  | AddCC nat CommandClasses
  | SendNonce nat
  | CancelSecureBootstrapS2 KEXFailType
  | CheckAllNodesReady
  | PingNode nat
  | SendSupervisionReportNoSupport nat nat "32 word"
  | EmitError JSError
  | Destroy
  | SendSegmentWait nat
  | NodeMarkAsAsleep nat
  | NodeMarkAsDead nat

text \<open>\<^verbatim>\<open>getNodeUnsafe\<close> goes through the getter \<^verbatim>\<open>controller\<close>, which throws while the
  controller does not exist.\<close>

definition getNodeUnsafe :: "Driver \<Rightarrow> Message \<Rightarrow> JSError + ZWaveNode option" where
  "getNodeUnsafe d msg =
     (case getNodeId msg of
        None \<Rightarrow> Inr None
      | Some n \<Rightarrow>
          (case controller d of
             None \<Rightarrow> Inl (ZWaveError Driver_NotReady)
           | Some c \<Rightarrow> Inr (nodes c n)))"

definition hasPendingTransactions :: "(Transaction \<Rightarrow> bool) \<Rightarrow> Driver \<Rightarrow> bool" where
  "hasPendingTransactions predicate d =
     (if find predicate (queue d) \<noteq> None then True
      else list_ex predicate (activeTransactions d))"

section \<open>A node that does not acknowledge\<close>






definition onNodeDead :: "ZWaveNode \<Rightarrow> NodeStatus \<Rightarrow> Effect list" where
  "onNodeDead node oldStatus = [ControllerLogNode (node_id node) Level_info, CheckAllNodesReady]"





section \<open>Decode errors\<close>

text \<open>
  \<^verbatim>\<open>handleDecodeError\<close> returns the header to answer with, or throws the error it was
  given (\<^verbatim>\<open>Inl\<close>). The first component holds what it printed. The message, when there
  is one, only changes what is logged.
\<close>

definition handleDecodeError ::
  "JSError \<Rightarrow> Message option \<Rightarrow> Effect list \<times> (JSError + MessageHeaders)" where
  "handleDecodeError e msg =
     (case e of
        ZWaveError code \<Rightarrow>
          (if code = PacketFormat_Invalid \<or> code = PacketFormat_Checksum \<or>
              code = PacketFormat_Truncated
           then ([DriverLogPrint Level_warn], Inr NAK)
           else if code = Deserialization_NotImplemented \<or> code = CC_NotImplemented
           then ([DriverLogPrint Level_warn], Inr ACK)
           else if code = Driver_NotReady
           then ([DriverLogPrint Level_warn], Inr ACK)
           else if code = PacketFormat_InvalidPayload
           then (case msg of
                   Some m \<Rightarrow> ([DriverLogPrint Level_warn, DriverLogMessage], Inr ACK)
                 | None \<Rightarrow> ([DriverLogPrint Level_warn], Inr ACK))
           else if code = Driver_NoSecurity \<or> code = Security2CC_NotInitialized
           then ([DriverLogPrint Level_warn], Inr ACK)
           else ([], Inl e))
      | OtherError text \<Rightarrow>
          (if sublist ''database is not open'' text
           then ([DriverLogPrint Level_warn], Inr ACK)
           else ([], Inl e)))"

text \<open>The predicate \<^verbatim>\<open>isS2NonceReport\<close> that \<^verbatim>\<open>handleSecurityS2DecodeError\<close> builds.\<close>

definition isS2NonceReport :: "nat \<Rightarrow> Transaction \<Rightarrow> bool" where
  "isS2NonceReport nid t =
     (getNodeId (message t) = Some nid \<and>
      isCommandClassContainer (message t) \<and>
      (case command (message t) of
         None \<Rightarrow> False
       | Some c \<Rightarrow> ccClass c = Security2CCNonceReport))"

definition tempKeys_has :: "Driver \<Rightarrow> nat \<Rightarrow> bool" where
  "tempKeys_has d nid =
     (case securityManager2 d of None \<Rightarrow> False | Some sm \<Rightarrow> nid \<in> tempKeys sm)"

text \<open>
  \<^verbatim>\<open>handleSecurityS2DecodeError\<close>: the boolean says whether the error was handled here.
  Sending the nonce is left to the Security 2 API of the node and shows as the effect
  \<^verbatim>\<open>SendNonce\<close>. The function is given in two parts: what happens once the node
  has been found, and the checks before that.
\<close>

definition handleSecurityS2DecodeError_node ::
  "ZWaveController \<Rightarrow> nat \<Rightarrow> ZWaveNode \<Rightarrow> Driver \<Rightarrow> Effect list" where
  "handleSecurityS2DecodeError_node c nid node d =
     [WriteHeader ACK, DriverLogMessage,
      IncrementStatistics (node_id node) ''commandsDroppedRX''] @
     (if interviewStageBeforeNodeInfo node then [AddCC (node_id node) CC_Security_2] else []) @
     (if bootstrappingS2NodeId c = Some nid then
        (if tempKeys_has d nid then
           (case securityManager2 d of
              None \<Rightarrow> []
            | Some sm \<Rightarrow>
                if getSPANState sm nid = SPANState_None
                then [ControllerLogNode nid Level_verbose, SendNonce (node_id node)]
                else [ControllerLogNode nid Level_error,
                      CancelSecureBootstrapS2 BootstrappingCanceled])
         else [ControllerLogNode nid Level_verbose])
      else if \<not> hasPendingTransactions (isS2NonceReport nid) d
      then [ControllerLogNode nid Level_verbose, SendNonce (node_id node)]
      else [ControllerLogNode nid Level_verbose])"

definition handleSecurityS2DecodeError ::
  "JSError \<Rightarrow> Message option \<Rightarrow> Driver \<Rightarrow> bool \<times> Effect list" where
  "handleSecurityS2DecodeError e msg d =
     (case (e, msg) of
        (ZWaveError code, Some m) \<Rightarrow>
          (if (code = Security2CC_NoSPAN \<or> code = Security2CC_CannotDecode) \<and>
              isCommandClassContainer m
           then (case (getNodeId m, controller d) of
                   (Some nid, Some c) \<Rightarrow>
                     (case nodes c nid of
                        None \<Rightarrow> (False, [])
                      | Some node \<Rightarrow> (True, handleSecurityS2DecodeError_node c nid node d))
                 | _ \<Rightarrow> (False, []))
           else (False, []))
      | _ \<Rightarrow> (False, []))"

text \<open>
  Modelled from the spec: the Security 2 API that sends the nonce is not part of the
  sources at hand. By the spec, sending the nonce enqueues an S2 Nonce Report transaction
  for the node at \<^verbatim>\<open>Nonce\<close> priority.
\<close>

definition nonceReportTransaction :: "nat \<Rightarrow> Transaction" where
  "nonceReportTransaction nid =
     \<lparr> message =
         \<lparr> messageClass = SendDataRequest, nodeId = Some nid,
           command = Some (CommandClass CC_Security_2 Security2CCNonceReport
                             EncapsulationFlags_None NotEncapsulating),
           ping = False, nodeQuery = False, defaultPriority = Some Priority_Normal,
           supervisionSessionId = None \<rparr>,
       priority = Priority_Nonce, tag = None, changeNodeStatusOnTimeout = False \<rparr>"

fun sendNonce :: "Effect \<Rightarrow> Driver \<Rightarrow> Driver" where
  "sendNonce (SendNonce nid) d = d\<lparr>queue := queue d @ [nonceReportTransaction nid]\<rparr>"
| "sendNonce other d = d"

definition sendNonces :: "Effect list \<Rightarrow> Driver \<Rightarrow> Driver" where
  "sendNonces es d = fold sendNonce es d"

text \<open>
  The \<^verbatim>\<open>catch\<close> branch of \<^verbatim>\<open>serialport_onData\<close>: what happens after decoding has thrown
  \<^verbatim>\<open>e\<close>, with \<^verbatim>\<open>msg\<close> the message as far as it had been assigned. The inner \<^verbatim>\<open>try\<close> block
  comes first; it yields its effects and the error that left it, if any.
\<close>

definition droppedStatistics :: "Message option \<Rightarrow> Driver \<Rightarrow> Effect list \<times> JSError option" where
  "droppedStatistics msg d =
     (case controller d of
        None \<Rightarrow> ([], None)
      | Some c \<Rightarrow>
          (case msg of
             None \<Rightarrow> ([ControllerIncrementStatistics ''messagesDroppedRX''], None)
           | Some m \<Rightarrow>
               if isCommandClassContainer m then
                 (case getNodeUnsafe d m of
                    Inl ee \<Rightarrow> ([], Some ee)
                  | Inr None \<Rightarrow> ([], None)
                  | Inr (Some node) \<Rightarrow>
                      (IncrementStatistics (node_id node) ''commandsDroppedRX'' #
                       (case (supervisionSessionId m, command m) of
                          (Some sessionId, Some cmd) \<Rightarrow>
                            if ccClass cmd = InvalidCC
                            then [SendSupervisionReportNoSupport (node_id node) sessionId
                                    (encapsulationFlags cmd)]
                            else []
                        | _ \<Rightarrow> []), None))
               else ([ControllerIncrementStatistics ''messagesDroppedRX''], None)))"

definition decodeFailed_try ::
  "JSError \<Rightarrow> Message option \<Rightarrow> Driver \<Rightarrow> Effect list \<times> JSError option" where
  "decodeFailed_try e msg d =
     (let (handled, es) = handleSecurityS2DecodeError e msg d
      in if handled then (es, None)
         else (case handleDecodeError e msg of
                 (es', Inl ee) \<Rightarrow> (es @ es', Some ee)
               | (es', Inr response) \<Rightarrow>
                   (let (es'', thrown) = droppedStatistics msg d
                    in (es @ es' @ [WriteHeader response] @ es'', thrown))))"

definition decodeFailed_catch :: "JSError \<Rightarrow> Effect list" where
  "decodeFailed_catch ee =
     (case ee of
        OtherError text \<Rightarrow>
          if sublist ''serial port is not open'' text then [EmitError ee, Destroy]
          else [DriverLogPrint Level_error]
      | ZWaveError code \<Rightarrow> [DriverLogPrint Level_error])"

text \<open>
  The whole branch. The result is either an error that leaves \<^verbatim>\<open>serialport_onData\<close>
  (\<^verbatim>\<open>Inl\<close>) or the effects together with the message that goes on to the send thread.
  The branch ends with \<^verbatim>\<open>msg = undefined\<close>, so no message goes on.
\<close>

definition serialport_onData_decodeFailed ::
  "JSError \<Rightarrow> Message option \<Rightarrow> Driver \<Rightarrow> JSError + (Effect list \<times> Message option)" where
  "serialport_onData_decodeFailed e msg d =
     (case decodeFailed_try e msg d of
        (es, Some ee) \<Rightarrow> Inr (es @ decodeFailed_catch ee, None)
      | (es, None) \<Rightarrow> Inr (es, None))"

text \<open>The error codes the driver answers with NAK, and the ones it answers with ACK, in
  \<^verbatim>\<open>handleDecodeError\<close>.\<close>

definition frameLevelErrors :: "JSError set" where
  "frameLevelErrors = {ZWaveError PacketFormat_Invalid, ZWaveError PacketFormat_Checksum,
           ZWaveError PacketFormat_Truncated}"

definition ccLevelErrors :: "JSError set" where
  "ccLevelErrors = {ZWaveError Deserialization_NotImplemented, ZWaveError CC_NotImplemented,
            ZWaveError PacketFormat_InvalidPayload, ZWaveError Driver_NotReady,
            ZWaveError Driver_NoSecurity, ZWaveError Security2CC_NotInitialized}"

section \<open>Sending to a dead node\<close>

record SendMessageOptions =
  opt_priority :: "MessagePriority option"
  opt_supportCheck :: "bool option"
  opt_tag :: "string option"

definition ensureReady :: "Driver \<Rightarrow> JSError option" where
  "ensureReady d =
     (if \<not> wasStarted d \<or> \<not> isOpen d \<or> wasDestroyed d
      then Some (ZWaveError Driver_NotReady) else None)"

text \<open>
  The first part of \<^verbatim>\<open>sendMessage\<close>, up to the end of the block that begins with
  ``Don't send messages to dead nodes''. \<^verbatim>\<open>pingResult\<close> is what \<^verbatim>\<open>node.ping()\<close> answers
  when it is called. The result is the node the rest of the function works with.
\<close>

definition sendMessage_deadNode ::
  "Message \<Rightarrow> bool \<Rightarrow> Driver \<Rightarrow> Effect list \<times> (JSError + ZWaveNode option)" where
  "sendMessage_deadNode msg pingResult d =
     (if isNodeQuery msg \<or> isCommandClassContainer msg then
        (case getNodeUnsafe d msg of
           Inl e \<Rightarrow> ([], Inl e)
         | Inr None \<Rightarrow> ([], Inr None)
         | Inr (Some node) \<Rightarrow>
             if \<not> messageIsPing msg \<and> status node = Dead then
               (if \<not> pingResult
                then ([PingNode (node_id node)], Inl (ZWaveError Controller_MessageDropped))
                else ([PingNode (node_id node)], Inr (Some node)))
             else ([], Inr (Some node)))
      else ([], Inr None))"

text \<open>
  The second part, from the choice of the priority to the creation of the transaction:
  the result is the priority and the tag the transaction is queued with.
\<close>

definition sendMessage_queue ::
  "Message \<Rightarrow> SendMessageOptions \<Rightarrow> ZWaveNode option \<Rightarrow> Driver \<Rightarrow>
     JSError + (MessagePriority \<times> string option)" where
  "sendMessage_queue msg options node d =
     (case (case opt_priority options of None \<Rightarrow> defaultPriority msg | Some p \<Rightarrow> Some p) of
        None \<Rightarrow> Inl (ZWaveError Driver_NoPriority)
      | Some prio \<Rightarrow>
          if (case opt_supportCheck options of None \<Rightarrow> True | Some b \<Rightarrow> b) \<and>
             (case controller d of
                None \<Rightarrow> False
              | Some c \<Rightarrow> \<not> isFunctionSupported c (messageClass msg))
          then Inl (ZWaveError Driver_NotSupported)
          else
            (case node of
               None \<Rightarrow> Inr (prio, opt_tag options)
             | Some n \<Rightarrow>
                 if \<not> messageIsPing msg \<and> canSleep n \<and>
                    (supportsWakeUpCC n \<or> interviewStageBeforeNodeInfo n) \<and>
                    messageClass msg \<noteq> SendDataMulticastRequest \<and>
                    messageClass msg \<noteq> SendDataMulticastBridgeRequest \<and>
                    prio \<noteq> Priority_Nonce \<and> prio \<noteq> Priority_Supervision
                 then Inr (Priority_WakeUp,
                           if prio = Priority_NodeQuery then Some ''interview''
                           else opt_tag options)
                 else Inr (prio, opt_tag options)))"

definition sendMessage ::
  "Message \<Rightarrow> SendMessageOptions \<Rightarrow> bool \<Rightarrow> Driver \<Rightarrow>
     Effect list \<times> (JSError + (MessagePriority \<times> string option))" where
  "sendMessage msg options pingResult d =
     (case ensureReady d of
        Some e \<Rightarrow> ([], Inl e)
      | None \<Rightarrow>
          (case sendMessage_deadNode msg pingResult d of
             (es, Inl e) \<Rightarrow> (es, Inl e)
           | (es, Inr node) \<Rightarrow> (es, sendMessage_queue msg options node d)))"

section \<open>Transport Service sessions\<close>

text \<open>
  The numbers of JavaScript: a real number, one of the two infinities, or \<^verbatim>\<open>NaN\<close>.
  For \<^verbatim>\<open>Math.ceil(a / b)\<close> and \<^verbatim>\<open>Math.floor(a / b)\<close> on lengths, sizes and offsets, a
  division by zero gives \<^verbatim>\<open>Infinity\<close>, or \<^verbatim>\<open>NaN\<close> for \<^verbatim>\<open>0 / 0\<close>, and both pass through
  \<^verbatim>\<open>Math.ceil\<close> and \<^verbatim>\<open>Math.floor\<close>.
\<close>

datatype JSNumber = Finite real | PosInfinity | NegInfinity | NaN

definition divide_js :: "nat \<Rightarrow> nat \<Rightarrow> JSNumber" where
  "divide_js a b =
     (if b = 0 then (if a = 0 then NaN else PosInfinity) else Finite (real a / real b))"

fun Math_ceil :: "JSNumber \<Rightarrow> JSNumber" where
  "Math_ceil (Finite x) = Finite (of_int \<lceil>x\<rceil>)"
| "Math_ceil PosInfinity = PosInfinity"
| "Math_ceil NegInfinity = NegInfinity"
| "Math_ceil NaN = NaN"

fun Math_floor :: "JSNumber \<Rightarrow> JSNumber" where
  "Math_floor (Finite x) = Finite (of_int \<lfloor>x\<rfloor>)"
| "Math_floor PosInfinity = PosInfinity"
| "Math_floor NegInfinity = NegInfinity"
| "Math_floor NaN = NaN"

datatype TransportServiceCC =
    TransportServiceCCFirstSegment (cc_nodeId: nat) (sessionId: nat)
      (datagramSize: nat) (partialDatagram: "8 word list")
  | TransportServiceCCSubsequentSegment (cc_nodeId: nat) (sessionId: nat)
      (datagramSize: nat) (datagramOffset: nat) (partialDatagram: "8 word list")

text \<open>
  The interpreter of a receiving state machine, seen from the driver: the number of
  segments it was created with, whether it is still running, and the indices of the
  \<^verbatim>\<open>segment\<close> events it was sent. Interpreters are objects; they live in a store and a
  session refers to its interpreter by the position in the store.
\<close>

record RXInterpreter =
  numSegments :: JSNumber
  running :: bool
  segmentEvents :: "JSNumber list"

record TransportSession =
  fragmentSize :: nat
  interpreter :: nat

record Sessions =
  transportService :: "nat \<rightharpoonup> TransportSession"

record SessionRegistry =
  nodeSessions :: "nat \<rightharpoonup> Sessions"
  interpreters :: "RXInterpreter list"

definition ensureNodeSessions :: "nat \<Rightarrow> SessionRegistry \<Rightarrow> SessionRegistry \<times> Sessions" where
  "ensureNodeSessions nid r =
     (case nodeSessions r nid of
        None \<Rightarrow>
          (r\<lparr>nodeSessions := (nodeSessions r)(nid \<mapsto> \<lparr>transportService = Map.empty\<rparr>)\<rparr>,
           \<lparr>transportService = Map.empty\<rparr>)
      | Some ss \<Rightarrow> (r, ss))"

definition interpreter_stop :: "nat \<Rightarrow> SessionRegistry \<Rightarrow> SessionRegistry" where
  "interpreter_stop a r =
     (if a < length (interpreters r)
      then r\<lparr>interpreters := (interpreters r)[a := (interpreters r ! a)\<lparr>running := False\<rparr>]\<rparr>
      else r)"

definition interpreter_send :: "nat \<Rightarrow> JSNumber \<Rightarrow> SessionRegistry \<Rightarrow> SessionRegistry" where
  "interpreter_send a index r =
     (if a < length (interpreters r)
      then r\<lparr>interpreters :=
               (interpreters r)[a := (interpreters r ! a)
                  \<lparr>segmentEvents := segmentEvents (interpreters r ! a) @ [index]\<rparr>]\<rparr>
      else r)"

text \<open>\<^verbatim>\<open>handleTransportServiceCommand\<close>. A first segment stops the interpreter of a
  session with the same id, clears the sessions of the node, starts a new interpreter and
  enters the new session. A later segment goes to the interpreter of its session, or is
  answered with a Segment Wait when there is none.\<close>

definition handleTransportServiceCommand ::
  "TransportServiceCC \<Rightarrow> SessionRegistry \<Rightarrow> SessionRegistry \<times> Effect list" where
  "handleTransportServiceCommand cmd r0 =
     (let (r, nodeSessions0) = ensureNodeSessions (cc_nodeId cmd) r0;
          transportSession = transportService nodeSessions0 (sessionId cmd)
      in case cmd of
           TransportServiceCCFirstSegment nid sid dsize datagram \<Rightarrow>
             (let r1 = (case transportSession of
                          None \<Rightarrow> r
                        | Some old \<Rightarrow> interpreter_stop (interpreter old) r);
                  machine = \<lparr> numSegments = Math_ceil (divide_js dsize (length datagram)),
                              running = True, segmentEvents = [] \<rparr>;
                  a = length (interpreters r1);
                  session = \<lparr> fragmentSize = length datagram, interpreter = a \<rparr>
              in (r1\<lparr> interpreters := interpreters r1 @ [machine],
                      nodeSessions := (nodeSessions r1)
                        (nid \<mapsto> \<lparr>transportService = Map.empty(sid \<mapsto> session)\<rparr>) \<rparr>,
                  [ControllerLogNode nid Level_debug]))
         | TransportServiceCCSubsequentSegment nid sid dsize doffset datagram \<Rightarrow>
             (case transportSession of
                Some session \<Rightarrow>
                  (interpreter_send (interpreter session)
                     (Math_floor (divide_js doffset (fragmentSize session))) r, [])
              | None \<Rightarrow> (r, [SendSegmentWait nid])))"

section \<open>Validation of the options\<close>

text \<open>The comparisons \<^verbatim>\<open><\<close> and \<^verbatim>\<open>>\<close> of JavaScript on numbers: every comparison with
  \<^verbatim>\<open>NaN\<close> is false.\<close>

fun js_less :: "JSNumber \<Rightarrow> JSNumber \<Rightarrow> bool" where
  "js_less NaN y = False"
| "js_less x NaN = False"
| "js_less (Finite a) (Finite b) = (a < b)"
| "js_less x NegInfinity = False"
| "js_less NegInfinity y = True"
| "js_less PosInfinity y = False"
| "js_less x PosInfinity = True"

definition js_greater :: "JSNumber \<Rightarrow> JSNumber \<Rightarrow> bool" where
  "js_greater x y = js_less y x"

text \<open>
  The options that \<^verbatim>\<open>checkOptions\<close> reads, and \<^verbatim>\<open>attempts.openSerialPort\<close>, which
  the driver uses when it opens the port. Timeouts and attempts are numbers.
  \<^verbatim>\<open>securityKeys\<close> holds the entries of the object in the order of \<^verbatim>\<open>Object.entries\<close>,
  each a security class name with its value: a key buffer, or nothing when the property
  is there with the value \<^verbatim>\<open>undefined\<close>. For \<^verbatim>\<open>inclusionUserCallbacks\<close> only the shape
  matters: a falsy value (\<^verbatim>\<open>undefined\<close>, \<^verbatim>\<open>null\<close>, \<^verbatim>\<open>0\<close>, the empty string, \<^verbatim>\<open>false\<close>),
  a truthy value that is not an object, or an object, of which each of the three members
  is a function or not.
\<close>

datatype InclusionUserCallbacks =
    FalsyValue
  | TruthyNonObject
  | CallbacksObject (grantSecurityClasses_isFunction: bool)
      (validateDSKAndEnterPIN_isFunction: bool) (abort_isFunction: bool)

record ZWaveOptions =
  timeouts_ack :: JSNumber
  timeouts_byte :: JSNumber
  timeouts_response :: JSNumber
  timeouts_report :: JSNumber
  timeouts_nonce :: JSNumber
  timeouts_sendDataCallback :: JSNumber
  timeouts_serialAPIStarted :: JSNumber
  attempts_openSerialPort :: JSNumber
  attempts_controller :: JSNumber
  attempts_sendData :: JSNumber
  attempts_nodeInterview :: JSNumber
  securityKeys :: "(string \<times> 8 word list option) list option"
  inclusionUserCallbacks :: InclusionUserCallbacks

text \<open>\<^verbatim>\<open>Array.prototype.findIndex\<close>: the index of the first element that satisfies the
  predicate, or \<open>-1\<close>.\<close>

fun findIndexFrom :: "int \<Rightarrow> ('a \<Rightarrow> bool) \<Rightarrow> 'a list \<Rightarrow> int" where
  "findIndexFrom i p [] = - 1"
| "findIndexFrom i p (x # xs) = (if p x then i else findIndexFrom (i + 1) p xs)"

definition findIndex :: "('a \<Rightarrow> bool) \<Rightarrow> 'a list \<Rightarrow> int" where
  "findIndex p xs = findIndexFrom 0 p xs"

text \<open>
  The loop over the security keys, as a recursion over the indices still to visit.
  Reading \<^verbatim>\<open>key.length\<close> of an entry whose value is \<^verbatim>\<open>undefined\<close> throws a
  \<^verbatim>\<open>TypeError\<close>. The search of \<^verbatim>\<open>findIndex\<close> ends at the entry itself at the latest, so
  it only meets entries that the loop has visited before.
\<close>

fun checkSecurityKeysAt ::
  "(string \<times> 8 word list option) list \<Rightarrow> nat list \<Rightarrow> JSError + unit" where
  "checkSecurityKeysAt keys [] = Inr ()"
| "checkSecurityKeysAt keys (i # rest) =
     (case snd (keys ! i) of
        None \<Rightarrow> Inl (OtherError ''TypeError: Cannot read properties of undefined'')
      | Some key \<Rightarrow>
          if length key \<noteq> 16 then Inl (ZWaveError Driver_InvalidOptions)
          else if findIndex (\<lambda>(secClass, k). k = Some key) keys \<noteq> int i
          then Inl (ZWaveError Driver_InvalidOptions)
          else checkSecurityKeysAt keys rest)"

definition checkSecurityKeys :: "(string \<times> 8 word list option) list \<Rightarrow> JSError + unit" where
  "checkSecurityKeys keys = checkSecurityKeysAt keys [0..<length keys]"

text \<open>\<^verbatim>\<open>checkOptions\<close>, with the imported constant \<^verbatim>\<open>MAX_SEND_ATTEMPTS\<close> as a parameter.
  Every \<^verbatim>\<open>throw\<close> statement of the function carries the code \<^verbatim>\<open>Driver_InvalidOptions\<close>.
  The check of \<^verbatim>\<open>inclusionUserCallbacks\<close> is guarded by a test of truthiness.\<close>

definition checkOptions :: "JSNumber \<Rightarrow> ZWaveOptions \<Rightarrow> JSError + unit" where
  "checkOptions MAX_SEND_ATTEMPTS options =
     (if js_less (timeouts_ack options) (Finite 1) then Inl (ZWaveError Driver_InvalidOptions)
      else if js_less (timeouts_byte options) (Finite 1)
      then Inl (ZWaveError Driver_InvalidOptions)
      else if js_less (timeouts_response options) (Finite 500) \<or>
              js_greater (timeouts_response options) (Finite 20000)
      then Inl (ZWaveError Driver_InvalidOptions)
      else if js_less (timeouts_report options) (Finite 500) \<or>
              js_greater (timeouts_report options) (Finite 10000)
      then Inl (ZWaveError Driver_InvalidOptions)
      else if js_less (timeouts_nonce options) (Finite 3000) \<or>
              js_greater (timeouts_nonce options) (Finite 20000)
      then Inl (ZWaveError Driver_InvalidOptions)
      else if js_less (timeouts_sendDataCallback options) (Finite 10000)
      then Inl (ZWaveError Driver_InvalidOptions)
      else if js_less (timeouts_serialAPIStarted options) (Finite 1000) \<or>
              js_greater (timeouts_serialAPIStarted options) (Finite 30000)
      then Inl (ZWaveError Driver_InvalidOptions)
      else (case (case securityKeys options of
                    None \<Rightarrow> Inr ()
                  | Some keys \<Rightarrow> checkSecurityKeys keys) of
              Inl e \<Rightarrow> Inl e
            | Inr u \<Rightarrow>
                if js_less (attempts_controller options) (Finite 1) \<or>
                   js_greater (attempts_controller options) (Finite 3)
                then Inl (ZWaveError Driver_InvalidOptions)
                else if js_less (attempts_sendData options) (Finite 1) \<or>
                        js_greater (attempts_sendData options) MAX_SEND_ATTEMPTS
                then Inl (ZWaveError Driver_InvalidOptions)
                else if js_less (attempts_nodeInterview options) (Finite 1) \<or>
                        js_greater (attempts_nodeInterview options) (Finite 10)
                then Inl (ZWaveError Driver_InvalidOptions)
                else (case inclusionUserCallbacks options of
                        FalsyValue \<Rightarrow> Inr ()
                      | TruthyNonObject \<Rightarrow> Inl (ZWaveError Driver_InvalidOptions)
                      | CallbacksObject g v a \<Rightarrow>
                          if \<not> g \<or> \<not> v \<or> \<not> a
                          then Inl (ZWaveError Driver_InvalidOptions)
                          else Inr ())))"

text \<open>A number that is at least \<open>lo\<close>, and a number that lies between \<open>lo\<close> and \<open>hi\<close>.
  \<^verbatim>\<open>NaN\<close> is neither.\<close>

fun atLeast_js :: "real \<Rightarrow> JSNumber \<Rightarrow> bool" where
  "atLeast_js lo (Finite x) = (lo \<le> x)"
| "atLeast_js lo PosInfinity = True"
| "atLeast_js lo NegInfinity = False"
| "atLeast_js lo NaN = False"

fun within_js :: "real \<Rightarrow> real \<Rightarrow> JSNumber \<Rightarrow> bool" where
  "within_js lo hi (Finite x) = (lo \<le> x \<and> x \<le> hi)"
| "within_js lo hi PosInfinity = False"
| "within_js lo hi NegInfinity = False"
| "within_js lo hi NaN = False"

text \<open>Security keys of 16 bytes each, no two of them equal; and inclusion callbacks that
  are absent or an object with all three functions.\<close>

definition keysValid :: "(string \<times> 8 word list option) list option \<Rightarrow> bool" where
  "keysValid ks =
     (case ks of
        None \<Rightarrow> True
      | Some keys \<Rightarrow>
          list_all (\<lambda>(secClass, k). case k of None \<Rightarrow> False | Some key \<Rightarrow> length key = 16) keys
          \<and> distinct (map snd keys))"

fun callbacksValid :: "InclusionUserCallbacks \<Rightarrow> bool" where
  "callbacksValid FalsyValue = True"
| "callbacksValid TruthyNonObject = False"
| "callbacksValid (CallbacksObject g v a) = (g \<and> v \<and> a)"

text \<open>
  The ranges of the spec's table of recognised keys, as the table gives them: the seven
  timeouts, the four attempt counts with \<^verbatim>\<open>attempts.openSerialPort\<close> at least 1, the keys
  of 16 bytes each without duplicates, and the three inclusion callbacks together.
  This definition follows the words of the spec, not the code.
\<close>

definition documentedRanges_spec :: "real \<Rightarrow> ZWaveOptions \<Rightarrow> bool" where
  "documentedRanges_spec maxSend options =
     (atLeast_js 1 (timeouts_ack options) \<and>
      atLeast_js 1 (timeouts_byte options) \<and>
      within_js 500 20000 (timeouts_response options) \<and>
      within_js 500 10000 (timeouts_report options) \<and>
      within_js 3000 20000 (timeouts_nonce options) \<and>
      atLeast_js 10000 (timeouts_sendDataCallback options) \<and>
      within_js 1000 30000 (timeouts_serialAPIStarted options) \<and>
      atLeast_js 1 (attempts_openSerialPort options) \<and>
      within_js 1 3 (attempts_controller options) \<and>
      within_js 1 maxSend (attempts_sendData options) \<and>
      within_js 1 10 (attempts_nodeInterview options) \<and>
      keysValid (securityKeys options) \<and>
      callbacksValid (inclusionUserCallbacks options))"

text \<open>The same without the line on \<^verbatim>\<open>attempts.openSerialPort\<close>: the ranges that
  \<^verbatim>\<open>checkOptions\<close> names in its error messages.\<close>

definition checkedRanges :: "real \<Rightarrow> ZWaveOptions \<Rightarrow> bool" where
  "checkedRanges maxSend options =
     (atLeast_js 1 (timeouts_ack options) \<and>
      atLeast_js 1 (timeouts_byte options) \<and>
      within_js 500 20000 (timeouts_response options) \<and>
      within_js 500 10000 (timeouts_report options) \<and>
      within_js 3000 20000 (timeouts_nonce options) \<and>
      atLeast_js 10000 (timeouts_sendDataCallback options) \<and>
      within_js 1000 30000 (timeouts_serialAPIStarted options) \<and>
      within_js 1 3 (attempts_controller options) \<and>
      within_js 1 maxSend (attempts_sendData options) \<and>
      within_js 1 10 (attempts_nodeInterview options) \<and>
      keysValid (securityKeys options) \<and>
      callbacksValid (inclusionUserCallbacks options))"

text \<open>
  The inputs on which the comparisons of \<^verbatim>\<open>checkOptions\<close> say what they seem to say:
  none of the numbers it compares is \<^verbatim>\<open>NaN\<close>, and every security class that is listed
  has a key buffer.
\<close>

definition numbersGiven :: "ZWaveOptions \<Rightarrow> bool" where
  "numbersGiven options =
     (timeouts_ack options \<noteq> NaN \<and> timeouts_byte options \<noteq> NaN \<and>
      timeouts_response options \<noteq> NaN \<and> timeouts_report options \<noteq> NaN \<and>
      timeouts_nonce options \<noteq> NaN \<and> timeouts_sendDataCallback options \<noteq> NaN \<and>
      timeouts_serialAPIStarted options \<noteq> NaN \<and> attempts_controller options \<noteq> NaN \<and>
      attempts_sendData options \<noteq> NaN \<and> attempts_nodeInterview options \<noteq> NaN)"

definition keysGiven :: "ZWaveOptions \<Rightarrow> bool" where
  "keysGiven options =
     (case securityKeys options of
        None \<Rightarrow> True
      | Some keys \<Rightarrow> list_all (\<lambda>(secClass, k). k \<noteq> None) keys)"

text \<open>The default options of the driver, as far as the record goes.\<close>

definition defaultOptions :: ZWaveOptions where
  "defaultOptions =
     \<lparr> timeouts_ack = Finite 1000, timeouts_byte = Finite 150,
       timeouts_response = Finite 10000, timeouts_report = Finite 1000,
       timeouts_nonce = Finite 5000, timeouts_sendDataCallback = Finite 65000,
       timeouts_serialAPIStarted = Finite 5000, attempts_openSerialPort = Finite 10,
       attempts_controller = Finite 3, attempts_sendData = Finite 3,
       attempts_nodeInterview = Finite 5,
       securityKeys = None, inclusionUserCallbacks = FalsyValue \<rparr>"

section \<open>Concrete inputs\<close>

text \<open>Commands, messages and transactions on which the definitions are run below.\<close>

definition leafCommand :: CommandClass where
  "leafCommand = CommandClass (CC_Other 37) OtherCCClass EncapsulationFlags_None NotEncapsulating"

definition otherLeafCommand :: CommandClass where
  "otherLeafCommand = CommandClass (CC_Other 38) OtherCCClass EncapsulationFlags_None NotEncapsulating"

definition multiChannelCommand :: CommandClass where
  "multiChannelCommand =
     CommandClass CC_Multi_Channel OtherCCClass EncapsulationFlags_None (Single leafCommand)"

definition multiCommandCommand :: CommandClass where
  "multiCommandCommand =
     CommandClass CC_Multi_Command OtherCCClass EncapsulationFlags_None
       (Multiple [leafCommand, otherLeafCommand])"

definition stackedCommand :: CommandClass where
  "stackedCommand =
     CommandClass CC_Supervision OtherCCClass EncapsulationFlags_None
       (Single (CommandClass CC_Security_2 OtherCCClass EncapsulationFlags_None
          (Single multiChannelCommand)))"

definition stackedMultiCommand :: CommandClass where
  "stackedMultiCommand =
     CommandClass CC_CRC_16_Encapsulation OtherCCClass EncapsulationFlags_None
       (Single multiCommandCommand)"

definition applicationCommand :: "nat \<Rightarrow> CommandClass \<Rightarrow> Message" where
  "applicationCommand nid c =
     \<lparr> messageClass = ApplicationCommandRequest, nodeId = Some nid, command = Some c,
       ping = False, nodeQuery = False, defaultPriority = None,
       supervisionSessionId = None \<rparr>"

definition sendData :: "nat \<Rightarrow> CommandClass \<Rightarrow> Message" where
  "sendData nid c =
     \<lparr> messageClass = SendDataRequest, nodeId = Some nid, command = Some c,
       ping = False, nodeQuery = False, defaultPriority = Some Priority_Normal,
       supervisionSessionId = None \<rparr>"

definition pingMessage :: "nat \<Rightarrow> Message" where
  "pingMessage nid =
     \<lparr> messageClass = SendDataRequest, nodeId = Some nid,
       command = Some (CommandClass CC_No_Operation OtherCCClass EncapsulationFlags_None
                         NotEncapsulating),
       ping = True, nodeQuery = False, defaultPriority = Some Priority_Ping,
       supervisionSessionId = None \<rparr>"

definition normalTransaction :: "nat \<Rightarrow> Transaction" where
  "normalTransaction nid =
     \<lparr> message = sendData nid leafCommand, priority = Priority_Normal, tag = None,
       changeNodeStatusOnTimeout = True \<rparr>"

definition compatTransaction :: "nat \<Rightarrow> Transaction" where
  "compatTransaction nid =
     \<lparr> message = sendData nid leafCommand, priority = Priority_Normal, tag = Some ''compat'',
       changeNodeStatusOnTimeout = True \<rparr>"


definition pingTransaction :: "nat \<Rightarrow> Transaction" where
  "pingTransaction nid =
     \<lparr> message = pingMessage nid, priority = Priority_Ping, tag = None,
       changeNodeStatusOnTimeout = True \<rparr>"

definition exampleNode :: "nat \<Rightarrow> NodeStatus \<Rightarrow> bool \<Rightarrow> ZWaveNode" where
  "exampleNode nid st sleeps =
     \<lparr> node_id = nid, status = st, canSleep = sleeps, supportsWakeUpCC = sleeps,
       interviewStageBeforeNodeInfo = False \<rparr>"

text \<open>A controller with a battery node 5 that is awake, a mains node 6 that is alive and
  a mains node 7 that is dead.\<close>

definition exampleController :: ZWaveController where
  "exampleController =
     \<lparr> nodes = [5 \<mapsto> exampleNode 5 Awake True, 6 \<mapsto> exampleNode 6 Alive False,
                7 \<mapsto> exampleNode 7 Dead False],
       bootstrappingS2NodeId = None,
       isFunctionSupported = (\<lambda>f. True) \<rparr>"

definition exampleSecurityManager2 :: SecurityManager2 where
  "exampleSecurityManager2 = \<lparr> tempKeys = {9}, getSPANState = (\<lambda>n. SPANState_RemoteEI) \<rparr>"

definition exampleDriver :: Driver where
  "exampleDriver =
     \<lparr> wasStarted = True, isOpen = True, wasDestroyed = False,
       controller = Some exampleController,
       securityManager2 = Some exampleSecurityManager2,
       queue = [], activeTransactions = [] \<rparr>"

text \<open>The same driver while node 9 is being bootstrapped with Security 2.\<close>

definition bootstrappingDriver :: Driver where
  "bootstrappingDriver =
     exampleDriver\<lparr> controller := Some (exampleController
       \<lparr> nodes := (nodes exampleController)(9 \<mapsto> exampleNode 9 Alive False),
         bootstrappingS2NodeId := Some 9 \<rparr>) \<rparr>"

text \<open>A registry without sessions, and the registry after node 5 has opened the
  Transport Service session 7 with a first segment of 40 bytes of a datagram of 140.\<close>

definition emptyRegistry :: SessionRegistry where
  "emptyRegistry = \<lparr> nodeSessions = Map.empty, interpreters = [] \<rparr>"

definition registryAfterFirstSegment :: SessionRegistry where
  "registryAfterFirstSegment =
     \<lparr> nodeSessions =
         [5 \<mapsto> \<lparr>transportService = [7 \<mapsto> \<lparr>fragmentSize = 40, interpreter = 0\<rparr>]\<rparr>],
       interpreters = [\<lparr>numSegments = Finite 4, running = True, segmentEvents = []\<rparr>] \<rparr>"

section \<open>Properties\<close>

subsection \<open>Unwrapping\<close>



lemma unwrapOne_flags:
  "unwrapOne outer inner = setFlags (encapsulationFlags outer OR wrapperFlag (ccId outer)) inner"
  by (cases inner; cases "ccId outer")
     (simp_all add: unwrapOne_def Let_def EncapsulationFlags_None_def)

lemma unwrapLoop_char:
  "unwrapLoop c =
     (setFlags (fold (\<lambda>i g. g OR wrapperFlag i) (wrappers c) (encapsulationFlags c)) (core c),
      if isMultiEncapsulatingCommandClass (core c)
      then [(''Received a command that contains multiple CommandClasses. This is not supported yet! Discarding the message...'', Level_warn)]
      else [])"
proof (induction c rule: unwrapLoop.induct)
  case (1 c)
  obtain i k f e where c: "c = CommandClass i k f e" by (cases c)
  show ?case
  proof (cases e)
    case NotEncapsulating
    with c show ?thesis by (simp add: unwrapLoop.simps)
  next
    case (Multiple cs)
    with c show ?thesis by (simp add: unwrapLoop.simps)
  next
    case (Single u)
    obtain i' k' f' e' where u: "u = CommandClass i' k' f' e'" by (cases u)
    have step: "unwrapLoop c = unwrapLoop (unwrapOne c u)"
      using c Single by (subst unwrapLoop.simps) simp
    have ih: "unwrapLoop (unwrapOne c u) =
       (setFlags (fold (\<lambda>i g. g OR wrapperFlag i) (wrappers (unwrapOne c u))
                   (encapsulationFlags (unwrapOne c u))) (core (unwrapOne c u)),
        if isMultiEncapsulatingCommandClass (core (unwrapOne c u))
        then [(''Received a command that contains multiple CommandClasses. This is not supported yet! Discarding the message...'', Level_warn)]
        else [])"
      using "1.IH"[of u] c Single by simp
    show ?thesis
      unfolding step ih using c Single u
      by (cases e') (simp_all add: unwrapOne_flags)
  qed
qed

lemma or_keeps_flag: "(g::32 word) AND x = x \<Longrightarrow> (g OR y) AND x = x"
  by (auto simp: bit_eq_iff bit_and_iff bit_or_iff)

lemma fold_or_keeps_flag:
  "(g::32 word) AND x = x \<Longrightarrow> fold (\<lambda>i g. g OR wrapperFlag i) is g AND x = x"
  by (induction "is" arbitrary: g) (simp_all add: or_keeps_flag)

lemma fold_or_has_flag:
  "j \<in> set is \<Longrightarrow> fold (\<lambda>i g. g OR wrapperFlag i) is g AND wrapperFlag j = wrapperFlag j"
proof (induction "is" arbitrary: g)
  case Nil
  then show ?case by simp
next
  case (Cons a rest)
  show ?case
  proof (cases "j = a")
    case True
    have "(g OR wrapperFlag a) AND wrapperFlag a = wrapperFlag a"
      by (auto simp: bit_eq_iff bit_and_iff bit_or_iff)
    then show ?thesis using True by (simp add: fold_or_keeps_flag)
  next
    case False
    with Cons show ?thesis by simp
  qed
qed

text \<open>
  Claim C1, amended. When a message holds a stack of wrappers around a leaf command,
  \<^verbatim>\<open>unwrapCommands\<close> leaves the leaf as the command of the message and logs nothing.
  The flags of the leaf are then the flags of the outermost wrapper together with the
  Supervision flag for every Supervision wrapper, the Security flag for every Security
  or Security 2 wrapper and the CRC16 flag for every CRC-16 wrapper: each of these flags
  is set in the result. A wrapper of any other command class, Multi Channel among them,
  is stripped without a flag.
\<close>
theorem unwrapCommands_flags:
  assumes "command msg = Some c"
    and "\<not> isMultiEncapsulatingCommandClass (core c)"
  shows "unwrapCommands msg = (msg\<lparr>command := Some (setFlags (strippedFlags c) (core c))\<rparr>, [])
       \<and> (\<forall>i \<in> set (wrappers c). strippedFlags c AND wrapperFlag i = wrapperFlag i)
       \<and> strippedFlags c AND encapsulationFlags c = encapsulationFlags c
       \<and> wrapperFlag CC_Multi_Channel = EncapsulationFlags_None"
  using assms
  by (simp add: unwrapCommands_def unwrapLoop_char strippedFlags_def fold_or_has_flag
      fold_or_keeps_flag)

text \<open>A Supervision wrapper around a Security 2 wrapper around a Multi Channel wrapper
  around a leaf: the leaf ends with the Supervision and the Security flag.\<close>

theorem unwrapCommands_flags_witness:
  "unwrapCommands (applicationCommand 5 stackedCommand) =
     (applicationCommand 5 (setFlags 3 leafCommand), [])
   \<and> wrappers stackedCommand = [CC_Supervision, CC_Security_2, CC_Multi_Channel]"
  using unwrapCommands_flags [of "applicationCommand 5 stackedCommand" stackedCommand]
  by (simp add: applicationCommand_def stackedCommand_def multiChannelCommand_def
      leafCommand_def strippedFlags_def EncapsulationFlags_None_def
      EncapsulationFlags_Supervision_def EncapsulationFlags_Security_def)

text \<open>A Multi Channel wrapper around a leaf is stripped, and the flags of the leaf stay
  empty: nothing in them tells that a wrapper was there.\<close>

theorem unwrapCommands_multiChannel_counterexample:
  "unwrapCommands (applicationCommand 5 multiChannelCommand) =
     (applicationCommand 5 leafCommand, [])
   \<and> encapsulationFlags leafCommand = EncapsulationFlags_None"
  by (simp add: unwrapCommands_def unwrapLoop_char applicationCommand_def
      multiChannelCommand_def leafCommand_def EncapsulationFlags_None_def)

text \<open>
  Claim C2, amended. When the stack of wrappers of a message ends in a
  multi-encapsulating wrapper, \<^verbatim>\<open>unwrapCommands\<close> strips the wrappers around it, adding
  their flags, logs one warning and stops: the multi-encapsulating wrapper stays the
  command of the message, and none of the commands inside it is taken out.
\<close>
theorem unwrapCommands_multi:
  assumes "command msg = Some c"
    and "isMultiEncapsulatingCommandClass (core c)"
  shows "\<exists>lg. unwrapCommands msg = (msg\<lparr>command := Some (setFlags (strippedFlags c) (core c))\<rparr>, [(lg, Level_warn)])
       \<and> isMultiEncapsulatingCommandClass (setFlags (strippedFlags c) (core c))"
  using assms
  by (cases "core c"; cases "encapsulated (core c)")
     (simp_all add: unwrapCommands_def unwrapLoop_char strippedFlags_def)

text \<open>A CRC-16 wrapper around a Multi Command wrapper: the Multi Command wrapper stays,
  with the CRC16 flag.\<close>

theorem unwrapCommands_multi_witness:
  "\<exists>lg. unwrapCommands (applicationCommand 5 stackedMultiCommand) =
     (applicationCommand 5 (setFlags 4 multiCommandCommand), [(lg, Level_warn)])"
  using unwrapCommands_multi [of "applicationCommand 5 stackedMultiCommand" stackedMultiCommand]
  by (simp add: applicationCommand_def stackedMultiCommand_def multiCommandCommand_def
      leafCommand_def otherLeafCommand_def strippedFlags_def EncapsulationFlags_None_def
      EncapsulationFlags_CRC16_def)

text \<open>A Multi Command wrapper with two commands: after \<^verbatim>\<open>unwrapCommands\<close> the message still
  holds the wrapper, not the first of the two commands.\<close>

theorem unwrapCommands_multiCommand_counterexample:
  "command (fst (unwrapCommands (applicationCommand 5 multiCommandCommand))) =
     Some multiCommandCommand
   \<and> multiCommandCommand \<noteq> leafCommand
   \<and> encapsulated multiCommandCommand = Multiple [leafCommand, otherLeafCommand]"
  by (simp add: unwrapCommands_def unwrapLoop_char applicationCommand_def
      multiCommandCommand_def leafCommand_def otherLeafCommand_def EncapsulationFlags_None_def)


subsection \<open>Sleeping and waking nodes\<close>


text \<open>
  Claim C3, amended. The reducer of \<^verbatim>\<open>moveMessagesToWakeupQueue\<close> keeps a transaction
  for another node. For the node itself it rejects, with \<^verbatim>\<open>Controller_MessageDropped\<close>,
  pings, transactions of priority Nonce or Supervision, WakeUpNoMoreInformation commands
  and transactions tagged \<^verbatim>\<open>compat\<close>; of the others it requeues those of priority
  NodeQuery at priority WakeUp with the tag \<^verbatim>\<open>interview\<close>, and the rest at priority
  WakeUp.
\<close>
theorem moveMessagesToWakeupQueue_classification:
  "moveMessagesToWakeupQueue_reducer nid t =
     (if getNodeId (message t) \<noteq> Some nid then Keep
      else if messageIsPing (message t) \<or> priority t = Priority_Nonce \<or>
              priority t = Priority_Supervision \<or>
              (isCommandClassContainer (message t) \<and>
               commandIsWakeUpCCNoMoreInformation (message t)) \<or>
              tag t = Some ''compat''
      then Reject Controller_MessageDropped
      else if priority t = Priority_NodeQuery
      then Requeue (Some Priority_WakeUp) (Some ''interview'')
      else Requeue (Some Priority_WakeUp) None)
   \<and> priority (requeued t (Some Priority_WakeUp) g) = Priority_WakeUp
   \<and> tag (requeued t p (Some ''interview'')) = Some ''interview''"
  by (auto simp: moveMessagesToWakeupQueue_reducer_def mayMoveToWakeupQueue_def Let_def
      requeued_def)

text \<open>The reducer for node 5 on a normal transaction, a ping, a transaction of node 6 and
  a transaction of priority NodeQuery.\<close>

theorem moveMessagesToWakeupQueue_classification_witness:
  "moveMessagesToWakeupQueue_reducer 5 (normalTransaction 5) = Requeue (Some Priority_WakeUp) None
   \<and> moveMessagesToWakeupQueue_reducer 5 (pingTransaction 5) = Reject Controller_MessageDropped
   \<and> moveMessagesToWakeupQueue_reducer 5 (normalTransaction 6) = Keep
   \<and> moveMessagesToWakeupQueue_reducer 5 ((normalTransaction 5)\<lparr>priority := Priority_NodeQuery\<rparr>)
       = Requeue (Some Priority_WakeUp) (Some ''interview'')"
  using moveMessagesToWakeupQueue_classification [of 5 "normalTransaction 5"]
    moveMessagesToWakeupQueue_classification [of 5 "pingTransaction 5"]
    moveMessagesToWakeupQueue_classification [of 5 "normalTransaction 6"]
    moveMessagesToWakeupQueue_classification
      [of 5 "(normalTransaction 5)\<lparr>priority := Priority_NodeQuery\<rparr>"]
  by (simp add: normalTransaction_def pingTransaction_def sendData_def pingMessage_def
      getNodeId_def messageIsPing_def isCommandClassContainer_def
      commandIsWakeUpCCNoMoreInformation_def leafCommand_def)

text \<open>A transaction for node 5 of priority Normal that is tagged \<^verbatim>\<open>compat\<close>; it is no ping
  and holds no WakeUpNoMoreInformation command, and yet it is rejected, not requeued.\<close>

theorem moveMessagesToWakeupQueue_compat_counterexample:
  "getNodeId (message (compatTransaction 5)) = Some 5
   \<and> \<not> messageIsPing (message (compatTransaction 5))
   \<and> priority (compatTransaction 5) = Priority_Normal
   \<and> \<not> commandIsWakeUpCCNoMoreInformation (message (compatTransaction 5))
   \<and> moveMessagesToWakeupQueue_reducer 5 (compatTransaction 5) = Reject Controller_MessageDropped"
  by (simp add: moveMessagesToWakeupQueue_reducer_def mayMoveToWakeupQueue_def Let_def
      compatTransaction_def sendData_def getNodeId_def messageIsPing_def
      isCommandClassContainer_def commandIsWakeUpCCNoMoreInformation_def leafCommand_def)















subsection \<open>Decode errors\<close>


lemma handleSecurityS2DecodeError_headers:
  "WriteHeader NAK \<notin> set (snd (handleSecurityS2DecodeError e msg d))"
  by (auto simp: handleSecurityS2DecodeError_def handleSecurityS2DecodeError_node_def
      split: JSError.splits option.splits if_splits)

lemma handleSecurityS2DecodeError_codes:
  "fst (handleSecurityS2DecodeError e msg d) \<Longrightarrow>
     e = ZWaveError Security2CC_NoSPAN \<or> e = ZWaveError Security2CC_CannotDecode"
  by (auto simp: handleSecurityS2DecodeError_def
      split: JSError.splits option.splits if_splits)

lemma handleSecurityS2DecodeError_unhandled:
  "\<not> fst (handleSecurityS2DecodeError e msg d) \<Longrightarrow> snd (handleSecurityS2DecodeError e msg d) = []"
  by (auto simp: handleSecurityS2DecodeError_def
      split: JSError.splits option.splits if_splits)

lemma droppedStatistics_headers:
  "WriteHeader h \<notin> set (fst (droppedStatistics msg d))"
  by (auto simp: droppedStatistics_def split: option.splits sum.splits if_splits)

lemma handleDecodeError_headers:
  "WriteHeader h \<notin> set (fst (handleDecodeError e msg))"
  by (auto simp: handleDecodeError_def split: JSError.splits option.splits if_splits)

lemma decodeFailed_catch_headers: "WriteHeader h \<notin> set (decodeFailed_catch ee)"
  by (auto simp: decodeFailed_catch_def split: JSError.splits)

lemma handleDecodeError_NAK:
  "snd (handleDecodeError e msg) = Inr NAK \<longleftrightarrow> e \<in> frameLevelErrors"
  by (cases e) (auto simp: handleDecodeError_def frameLevelErrors_def split: option.splits)

lemma handleDecodeError_ACK:
  "e \<in> ccLevelErrors \<Longrightarrow> snd (handleDecodeError e msg) = Inr ACK"
  by (auto simp: handleDecodeError_def ccLevelErrors_def split: option.splits)

lemma decodeFailed_total:
  "\<exists>es. serialport_onData_decodeFailed e msg d = Inr (es, None)"
  by (auto simp: serialport_onData_decodeFailed_def split: prod.splits option.splits)

lemma decodeFailed_written:
  assumes "serialport_onData_decodeFailed e msg d = Inr (es, fwd)"
  shows "WriteHeader h \<in> set es \<longleftrightarrow>
           (if fst (handleSecurityS2DecodeError e msg d) then h = ACK
            else snd (handleDecodeError e msg) = Inr h)"
proof (cases "fst (handleSecurityS2DecodeError e msg d)")
  case True
  then obtain es0 where s2: "handleSecurityS2DecodeError e msg d = (True, es0)"
    by (cases "handleSecurityS2DecodeError e msg d") auto
  have "WriteHeader ACK \<in> set es0"
    using s2
    by (auto simp: handleSecurityS2DecodeError_def handleSecurityS2DecodeError_node_def
      split: JSError.splits option.splits if_splits)
  moreover have "WriteHeader NAK \<notin> set es0" "WriteHeader CAN \<notin> set es0"
    using s2
    by (auto simp: handleSecurityS2DecodeError_def handleSecurityS2DecodeError_node_def
      split: JSError.splits option.splits if_splits)
  moreover have "es = es0"
    using assms s2 by (simp add: serialport_onData_decodeFailed_def decodeFailed_try_def)
  ultimately show ?thesis using True by (cases h) auto
next
  case False
  then have s2: "handleSecurityS2DecodeError e msg d = (False, [])"
    using handleSecurityS2DecodeError_unhandled [of e msg d]
    by (cases "handleSecurityS2DecodeError e msg d") auto
  obtain es' r where hd: "handleDecodeError e msg = (es', r)"
    by (cases "handleDecodeError e msg")
  have nes': "WriteHeader h \<notin> set es'"
    using handleDecodeError_headers [of h e msg] hd by simp
  show ?thesis
  proof (cases r)
    case (Inl ee)
    then have "es = es' @ decodeFailed_catch ee"
      using assms s2 hd
      by (simp add: serialport_onData_decodeFailed_def decodeFailed_try_def)
    then show ?thesis using False hd Inl nes' decodeFailed_catch_headers [of h ee] by simp
  next
    case (Inr response)
    obtain es'' thrown where ds: "droppedStatistics msg d = (es'', thrown)"
      by (cases "droppedStatistics msg d")
    have nes'': "WriteHeader h \<notin> set es''"
      using droppedStatistics_headers [of h msg d] ds by simp
    have "\<exists>rest. es = es' @ [WriteHeader response] @ es'' @ rest
            \<and> WriteHeader h \<notin> set rest"
      using assms s2 hd Inr ds decodeFailed_catch_headers [of h]
      by (cases thrown)
         (auto simp: serialport_onData_decodeFailed_def decodeFailed_try_def)
    then show ?thesis using False hd Inr nes' nes'' by auto
  qed
qed

text \<open>
  Claim C7. When decoding an inbound frame fails, \<^verbatim>\<open>serialport_onData\<close> lets no error
  out and forwards no message. It writes NAK exactly when the error is one of the
  frame-level codes \<^verbatim>\<open>PacketFormat_Invalid\<close>, \<^verbatim>\<open>PacketFormat_Checksum\<close> and
  \<^verbatim>\<open>PacketFormat_Truncated\<close>, and it writes ACK for the command-level codes
  \<^verbatim>\<open>Deserialization_NotImplemented\<close>, \<^verbatim>\<open>CC_NotImplemented\<close>,
  \<^verbatim>\<open>PacketFormat_InvalidPayload\<close>, \<^verbatim>\<open>Driver_NotReady\<close>, \<^verbatim>\<open>Driver_NoSecurity\<close> and
  \<^verbatim>\<open>Security2CC_NotInitialized\<close>.
\<close>

theorem decodeFailed_reply:
  "\<exists>es. serialport_onData_decodeFailed e msg d = Inr (es, None)
     \<and> (WriteHeader NAK \<in> set es \<longleftrightarrow> e \<in> frameLevelErrors)
     \<and> (e \<in> ccLevelErrors \<longrightarrow> WriteHeader ACK \<in> set es)"
proof -
  obtain es where es: "serialport_onData_decodeFailed e msg d = Inr (es, None)"
    using decodeFailed_total by blast
  have nak: "WriteHeader NAK \<in> set es \<longleftrightarrow> e \<in> frameLevelErrors"
  proof (cases "fst (handleSecurityS2DecodeError e msg d)")
    case True
    then have "e \<notin> frameLevelErrors"
      using handleSecurityS2DecodeError_codes [of e msg d]
      by (auto simp: frameLevelErrors_def)
    then show ?thesis using decodeFailed_written [OF es, of NAK] True by simp
  next
    case False
    then show ?thesis
      using decodeFailed_written [OF es, of NAK] handleDecodeError_NAK [of e msg] by simp
  qed
  have ack: "e \<in> ccLevelErrors \<longrightarrow> WriteHeader ACK \<in> set es"
  proof
    assume cc: "e \<in> ccLevelErrors"
    then have "\<not> fst (handleSecurityS2DecodeError e msg d)"
      using handleSecurityS2DecodeError_codes [of e msg d]
      by (auto simp: ccLevelErrors_def)
    then show "WriteHeader ACK \<in> set es"
      using decodeFailed_written [OF es, of ACK] handleDecodeError_ACK [OF cc, of msg] by simp
  qed
  from es nak ack show ?thesis by blast
qed

text \<open>A checksum error is answered with NAK, a command that is not implemented with ACK.\<close>

theorem decodeFailed_reply_witness:
  "serialport_onData_decodeFailed (ZWaveError PacketFormat_Checksum) None exampleDriver =
     Inr ([DriverLogPrint Level_warn, WriteHeader NAK,
           ControllerIncrementStatistics ''messagesDroppedRX''], None)
   \<and> ZWaveError PacketFormat_Checksum \<in> frameLevelErrors
   \<and> ZWaveError CC_NotImplemented \<in> ccLevelErrors
   \<and> serialport_onData_decodeFailed (ZWaveError CC_NotImplemented) None exampleDriver =
     Inr ([DriverLogPrint Level_warn, WriteHeader ACK,
           ControllerIncrementStatistics ''messagesDroppedRX''], None)"
  using decodeFailed_reply [of "ZWaveError PacketFormat_Checksum" None exampleDriver]
  by (simp add: serialport_onData_decodeFailed_def decodeFailed_try_def
      handleSecurityS2DecodeError_def handleDecodeError_def droppedStatistics_def
      exampleDriver_def frameLevelErrors_def ccLevelErrors_def)



subsection \<open>Security 2 decode errors\<close>


lemma hasPendingTransactions_iff:
  "hasPendingTransactions p d \<longleftrightarrow> (\<exists>t \<in> set (queue d) \<union> set (activeTransactions d). p t)"
  by (auto simp: hasPendingTransactions_def find_None_iff list_ex_iff)

lemma sendNonces_fields:
  "controller (sendNonces es d) = controller d
   \<and> securityManager2 (sendNonces es d) = securityManager2 d
   \<and> activeTransactions (sendNonces es d) = activeTransactions d
   \<and> set (queue d) \<subseteq> set (queue (sendNonces es d))"
  unfolding sendNonces_def
proof (induction es arbitrary: d)
  case Nil
  then show ?case by simp
next
  case (Cons x xs)
  have "controller (sendNonce x d) = controller d
      \<and> securityManager2 (sendNonce x d) = securityManager2 d
      \<and> activeTransactions (sendNonce x d) = activeTransactions d
      \<and> set (queue d) \<subseteq> set (queue (sendNonce x d))"
    by (cases x) auto
  with Cons [of "sendNonce x d"] show ?case by auto
qed

lemma sendNonces_enqueues:
  "SendNonce n \<in> set es \<Longrightarrow> nonceReportTransaction n \<in> set (queue (sendNonces es d))"
  unfolding sendNonces_def
proof (induction es arbitrary: d)
  case Nil
  then show ?case by simp
next
  case (Cons x xs)
  show ?case
  proof (cases "x = SendNonce n")
    case True
    have "nonceReportTransaction n \<in> set (queue (sendNonce x d))"
      using True by simp
    then show ?thesis
      using sendNonces_fields [of xs "sendNonce x d"] by (auto simp: sendNonces_def)
  next
    case False
    with Cons show ?thesis by simp
  qed
qed

lemma isS2NonceReport_nonceReportTransaction: "isS2NonceReport n (nonceReportTransaction n)"
  by (simp add: isS2NonceReport_def nonceReportTransaction_def getNodeId_def
      isCommandClassContainer_def)

lemma handleSecurityS2DecodeError_known:
  assumes "code = Security2CC_NoSPAN \<or> code = Security2CC_CannotDecode"
    and "isCommandClassContainer m"
    and "getNodeId m = Some nid"
    and "controller d = Some c"
    and "nodes c nid = Some node"
  shows "handleSecurityS2DecodeError (ZWaveError code) (Some m) d =
           (True, handleSecurityS2DecodeError_node c nid node d)"
  using assms by (auto simp: handleSecurityS2DecodeError_def)

lemma handleSecurityS2DecodeError_node_nonce:
  assumes "bootstrappingS2NodeId c \<noteq> Some nid"
  shows "SendNonce n \<in> set (handleSecurityS2DecodeError_node c nid node d) \<longleftrightarrow>
           n = node_id node \<and> \<not> hasPendingTransactions (isS2NonceReport nid) d"
  using assms by (auto simp: handleSecurityS2DecodeError_node_def)

text \<open>
  Claim C6. A Security 2 decode error (\<^verbatim>\<open>Security2CC_NoSPAN\<close> or
  \<^verbatim>\<open>Security2CC_CannotDecode\<close>) comes with a message that holds a command of a known
  node. The driver handles it and the first thing it does is to write ACK. If the node
  is not the one being bootstrapped, the nonce is sent exactly when no S2 Nonce Report
  transaction for the node is pending, and once the nonce reports of this round are in
  the queue, a second failure sends no nonce. If the node is the one being bootstrapped,
  has a temporary key and a SPAN state other than None, the driver cancels the
  bootstrapping with \<^verbatim>\<open>BootstrappingCanceled\<close> and sends no nonce.
\<close>

theorem handleSecurityS2DecodeError_reply:
  assumes "code = Security2CC_NoSPAN \<or> code = Security2CC_CannotDecode"
    and "isCommandClassContainer m"
    and "getNodeId m = Some nid"
    and "controller d = Some c"
    and "nodes c nid = Some node"
    and "node_id node = nid"
  shows "\<exists>es. handleSecurityS2DecodeError (ZWaveError code) (Some m) d = (True, WriteHeader ACK # es)
     \<and> (bootstrappingS2NodeId c \<noteq> Some nid \<longrightarrow>
          (SendNonce nid \<in> set es \<longleftrightarrow> \<not> hasPendingTransactions (isS2NonceReport nid) d)
        \<and> SendNonce nid \<notin> set (snd (handleSecurityS2DecodeError (ZWaveError code) (Some m)
                                      (sendNonces (WriteHeader ACK # es) d))))
     \<and> (bootstrappingS2NodeId c = Some nid \<and>
        (\<exists>sm. securityManager2 d = Some sm \<and> nid \<in> tempKeys sm
              \<and> getSPANState sm nid \<noteq> SPANState_None) \<longrightarrow>
          CancelSecureBootstrapS2 BootstrappingCanceled \<in> set es \<and> SendNonce nid \<notin> set es)"
proof -
  let ?all = "handleSecurityS2DecodeError_node c nid node d"
  obtain es where es: "?all = WriteHeader ACK # es"
    by (simp add: handleSecurityS2DecodeError_node_def)
  have first: "handleSecurityS2DecodeError (ZWaveError code) (Some m) d = (True, WriteHeader ACK # es)"
    using handleSecurityS2DecodeError_known [OF assms(1-5)] es by simp
  let ?d' = "sendNonces (WriteHeader ACK # es) d"
  have d': "controller ?d' = Some c"
    using sendNonces_fields [of "WriteHeader ACK # es" d] assms(4) by simp
  have second: "handleSecurityS2DecodeError (ZWaveError code) (Some m) ?d' =
                  (True, handleSecurityS2DecodeError_node c nid node ?d')"
    using handleSecurityS2DecodeError_known [OF assms(1-3) d' assms(5)] .
  have a: "bootstrappingS2NodeId c \<noteq> Some nid \<longrightarrow>
          (SendNonce nid \<in> set es \<longleftrightarrow> \<not> hasPendingTransactions (isS2NonceReport nid) d)
        \<and> SendNonce nid \<notin> set (snd (handleSecurityS2DecodeError (ZWaveError code) (Some m) ?d'))"
  proof
    assume nb: "bootstrappingS2NodeId c \<noteq> Some nid"
    have iff: "SendNonce nid \<in> set es \<longleftrightarrow> \<not> hasPendingTransactions (isS2NonceReport nid) d"
      using handleSecurityS2DecodeError_node_nonce [OF nb, of nid node d] es assms(6) by simp
    have "hasPendingTransactions (isS2NonceReport nid) ?d'"
    proof (cases "hasPendingTransactions (isS2NonceReport nid) d")
      case True
      then show ?thesis
        using sendNonces_fields [of "WriteHeader ACK # es" d]
        unfolding hasPendingTransactions_iff by auto
    next
      case False
      then have "SendNonce nid \<in> set (WriteHeader ACK # es)" using iff by simp
      then have "nonceReportTransaction nid \<in> set (queue ?d')"
        by (rule sendNonces_enqueues)
      then show ?thesis
        unfolding hasPendingTransactions_iff
        using isS2NonceReport_nonceReportTransaction [of nid] by blast
    qed
    then have "SendNonce nid \<notin> set (handleSecurityS2DecodeError_node c nid node ?d')"
      using handleSecurityS2DecodeError_node_nonce [OF nb, of nid node ?d'] by simp
    with iff second
    show "(SendNonce nid \<in> set es \<longleftrightarrow> \<not> hasPendingTransactions (isS2NonceReport nid) d)
        \<and> SendNonce nid \<notin> set (snd (handleSecurityS2DecodeError (ZWaveError code) (Some m) ?d'))"
      by simp
  qed
  have b: "bootstrappingS2NodeId c = Some nid \<and>
        (\<exists>sm. securityManager2 d = Some sm \<and> nid \<in> tempKeys sm
              \<and> getSPANState sm nid \<noteq> SPANState_None) \<longrightarrow>
          CancelSecureBootstrapS2 BootstrappingCanceled \<in> set es \<and> SendNonce nid \<notin> set es"
    using es by (auto simp: handleSecurityS2DecodeError_node_def tempKeys_has_def
        split: if_splits)
  from first a b show ?thesis by blast
qed

text \<open>Node 5 without a SPAN: ACK and a nonce; the same failure again, with the nonce
  report in the queue: ACK and no nonce. Node 9 in the middle of bootstrapping with a
  temporary key and a SPAN state other than None: the bootstrapping is cancelled.\<close>

theorem handleSecurityS2DecodeError_reply_witness:
  "handleSecurityS2DecodeError (ZWaveError Security2CC_NoSPAN)
     (Some (applicationCommand 5 leafCommand)) exampleDriver =
     (True, [WriteHeader ACK, DriverLogMessage, IncrementStatistics 5 ''commandsDroppedRX'',
             ControllerLogNode 5 Level_verbose, SendNonce 5])
   \<and> snd (handleSecurityS2DecodeError (ZWaveError Security2CC_NoSPAN)
       (Some (applicationCommand 5 leafCommand))
       (sendNonces [WriteHeader ACK, DriverLogMessage,
             IncrementStatistics 5 ''commandsDroppedRX'',
             ControllerLogNode 5 Level_verbose, SendNonce 5] exampleDriver)) =
       [WriteHeader ACK, DriverLogMessage, IncrementStatistics 5 ''commandsDroppedRX'',
        ControllerLogNode 5 Level_verbose]
   \<and> snd (handleSecurityS2DecodeError (ZWaveError Security2CC_CannotDecode)
       (Some (applicationCommand 9 leafCommand)) bootstrappingDriver) =
       [WriteHeader ACK, DriverLogMessage, IncrementStatistics 9 ''commandsDroppedRX'',
        ControllerLogNode 9 Level_error, CancelSecureBootstrapS2 BootstrappingCanceled]"
  using handleSecurityS2DecodeError_reply [of Security2CC_NoSPAN "applicationCommand 5 leafCommand"
      5 exampleDriver exampleController "exampleNode 5 Awake True"]
  by (simp add: handleSecurityS2DecodeError_def handleSecurityS2DecodeError_node_def
      applicationCommand_def exampleDriver_def exampleController_def exampleNode_def
      bootstrappingDriver_def exampleSecurityManager2_def tempKeys_has_def
      isCommandClassContainer_def getNodeId_def hasPendingTransactions_def sendNonces_def
      isS2NonceReport_def nonceReportTransaction_def)


subsection \<open>Transport Service\<close>


lemma ceiling_divide_nat:
  assumes "0 < b"
  shows "\<lceil>real a / real b\<rceil> = int ((a + b - 1) div b)"
proof (rule ceiling_unique)
  let ?z = "(a + b - 1) div b"
  have up: "a + b - 1 < ?z * b + b"
    using assms dividend_less_div_times [of b "a + b - 1"] by (simp add: algebra_simps)
  have low: "?z * b \<le> a + b - 1"
    by simp
  have "a \<le> ?z * b" using up assms by linarith
  then have "real a \<le> real ?z * real b"
    by (metis of_nat_le_iff of_nat_mult)
  then show "real a / real b \<le> of_int (int ?z)"
    using assms by (simp add: pos_divide_le_eq)
  have "?z * b < a + b" using low assms by linarith
  then have "real ?z * real b < real a + real b"
    by (metis of_nat_less_iff of_nat_mult of_nat_add)
  then have "(real ?z - 1) * real b < real a"
    by (simp add: algebra_simps)
  then show "of_int (int ?z) - 1 < real a / real b"
    using assms by (simp add: pos_less_divide_eq)
qed

lemma Math_ceil_divide:
  "0 < b \<Longrightarrow> Math_ceil (divide_js a b) = Finite (real ((a + b - 1) div b))"
  by (simp add: divide_js_def ceiling_divide_nat)

lemma Math_floor_divide:
  "0 < b \<Longrightarrow> Math_floor (divide_js a b) = Finite (real (a div b))"
  by (simp add: divide_js_def floor_divide_of_nat_eq)

lemma firstSegment_result:
  "handleTransportServiceCommand (TransportServiceCCFirstSegment nid sid dsize datagram) r =
     (let r1 = (case nodeSessions r nid of
                  None \<Rightarrow> r
                | Some ss \<Rightarrow> (case transportService ss sid of
                               None \<Rightarrow> r
                             | Some old \<Rightarrow> interpreter_stop (interpreter old) r))
      in (r1\<lparr> interpreters := interpreters r1 @
                 [\<lparr> numSegments = Math_ceil (divide_js dsize (length datagram)),
                    running = True, segmentEvents = [] \<rparr>],
              nodeSessions := (nodeSessions r)
                (nid \<mapsto> \<lparr>transportService =
                           [sid \<mapsto> \<lparr>fragmentSize = length datagram,
                                     interpreter = length (interpreters r)\<rparr>]\<rparr>) \<rparr>,
          [ControllerLogNode nid Level_debug]))"
  by (auto simp: handleTransportServiceCommand_def ensureNodeSessions_def interpreter_stop_def
      Let_def split: option.splits)

lemma subsequentSegment_result:
  assumes "nodeSessions r nid = Some ss" and "transportService ss sid = Some session"
  shows "handleTransportServiceCommand
           (TransportServiceCCSubsequentSegment nid sid dsize doffset datagram) r =
         (interpreter_send (interpreter session)
            (Math_floor (divide_js doffset (fragmentSize session))) r, [])"
  using assms
  by (simp add: handleTransportServiceCommand_def ensureNodeSessions_def Let_def)

text \<open>
  Claim C8. A first segment enters the session under its node and session id, with the
  length of the partial datagram as fragment size and a new, running interpreter; when
  that length is positive the number of segments is the datagram size divided by it,
  rounded up. The interpreter of an earlier session with the same id is stopped. A
  later segment of a known session is sent to the interpreter of that session as a
  \<^verbatim>\<open>segment\<close> event whose index, for a positive fragment size, is the datagram offset
  divided by the fragment size, rounded down; the registry stays as it is.
\<close>

theorem handleTransportServiceCommand_sessions:
  "(\<exists>r' es ss a.
       handleTransportServiceCommand (TransportServiceCCFirstSegment nid sid dsize datagram) r
         = (r', es)
     \<and> nodeSessions r' nid = Some ss
     \<and> transportService ss sid = Some \<lparr>fragmentSize = length datagram, interpreter = a\<rparr>
     \<and> a = length (interpreters r) \<and> length (interpreters r') = Suc a
     \<and> running (interpreters r' ! a) \<and> segmentEvents (interpreters r' ! a) = []
     \<and> (0 < length datagram \<longrightarrow>
          numSegments (interpreters r' ! a)
            = Finite (of_int \<lceil>real dsize / real (length datagram)\<rceil>)
        \<and> numSegments (interpreters r' ! a)
            = Finite (real ((dsize + length datagram - 1) div length datagram)))
     \<and> (\<forall>ss0 old. nodeSessions r nid = Some ss0 \<and> transportService ss0 sid = Some old
            \<and> interpreter old < length (interpreters r)
          \<longrightarrow> \<not> running (interpreters r' ! interpreter old)))
   \<and> (\<forall>ss session. nodeSessions r nid = Some ss \<and> transportService ss sid = Some session
          \<and> interpreter session < length (interpreters r) \<longrightarrow>
        (\<exists>r'. handleTransportServiceCommand
                 (TransportServiceCCSubsequentSegment nid sid dsize doffset datagram') r = (r', [])
          \<and> nodeSessions r' = nodeSessions r
          \<and> segmentEvents (interpreters r' ! interpreter session) =
              segmentEvents (interpreters r ! interpreter session) @
                [Math_floor (divide_js doffset (fragmentSize session))]
          \<and> (0 < fragmentSize session \<longrightarrow>
               Math_floor (divide_js doffset (fragmentSize session))
                 = Finite (of_int \<lfloor>real doffset / real (fragmentSize session)\<rfloor>)
             \<and> Math_floor (divide_js doffset (fragmentSize session))
                 = Finite (real (doffset div fragmentSize session)))))"
proof (intro conjI)
  show "\<exists>r' es ss a.
       handleTransportServiceCommand (TransportServiceCCFirstSegment nid sid dsize datagram) r
         = (r', es)
     \<and> nodeSessions r' nid = Some ss
     \<and> transportService ss sid = Some \<lparr>fragmentSize = length datagram, interpreter = a\<rparr>
     \<and> a = length (interpreters r) \<and> length (interpreters r') = Suc a
     \<and> running (interpreters r' ! a) \<and> segmentEvents (interpreters r' ! a) = []
     \<and> (0 < length datagram \<longrightarrow>
          numSegments (interpreters r' ! a)
            = Finite (of_int \<lceil>real dsize / real (length datagram)\<rceil>)
        \<and> numSegments (interpreters r' ! a)
            = Finite (real ((dsize + length datagram - 1) div length datagram)))
     \<and> (\<forall>ss0 old. nodeSessions r nid = Some ss0 \<and> transportService ss0 sid = Some old
            \<and> interpreter old < length (interpreters r)
          \<longrightarrow> \<not> running (interpreters r' ! interpreter old))"
    unfolding firstSegment_result
    by (auto simp: Let_def interpreter_stop_def nth_append divide_js_def ceiling_divide_nat
        split: option.splits)
  show "\<forall>ss session. nodeSessions r nid = Some ss \<and> transportService ss sid = Some session
          \<and> interpreter session < length (interpreters r) \<longrightarrow>
        (\<exists>r'. handleTransportServiceCommand
                 (TransportServiceCCSubsequentSegment nid sid dsize doffset datagram') r = (r', [])
          \<and> nodeSessions r' = nodeSessions r
          \<and> segmentEvents (interpreters r' ! interpreter session) =
              segmentEvents (interpreters r ! interpreter session) @
                [Math_floor (divide_js doffset (fragmentSize session))]
          \<and> (0 < fragmentSize session \<longrightarrow>
               Math_floor (divide_js doffset (fragmentSize session))
                 = Finite (of_int \<lfloor>real doffset / real (fragmentSize session)\<rfloor>)
             \<and> Math_floor (divide_js doffset (fragmentSize session))
                 = Finite (real (doffset div fragmentSize session))))"
    by (auto simp: subsequentSegment_result interpreter_send_def divide_js_def
        floor_divide_of_nat_eq)
qed

text \<open>A datagram of 140 bytes in fragments of 40 has 4 segments; a second first segment
  stops the interpreter of the first; the segment at offset 120 has index 3.\<close>

theorem handleTransportServiceCommand_sessions_witness:
  "handleTransportServiceCommand
     (TransportServiceCCFirstSegment 5 7 140 (replicate 40 0)) emptyRegistry =
     (registryAfterFirstSegment, [ControllerLogNode 5 Level_debug])
   \<and> handleTransportServiceCommand
     (TransportServiceCCFirstSegment 5 7 140 (replicate 40 0)) registryAfterFirstSegment =
     (registryAfterFirstSegment
        \<lparr>interpreters := [\<lparr>numSegments = Finite 4, running = False, segmentEvents = []\<rparr>,
                          \<lparr>numSegments = Finite 4, running = True, segmentEvents = []\<rparr>],
         nodeSessions :=
           [5 \<mapsto> \<lparr>transportService = [7 \<mapsto> \<lparr>fragmentSize = 40, interpreter = 1\<rparr>]\<rparr>]\<rparr>,
      [ControllerLogNode 5 Level_debug])
   \<and> handleTransportServiceCommand
     (TransportServiceCCSubsequentSegment 5 7 140 120 (replicate 20 0)) registryAfterFirstSegment =
     (registryAfterFirstSegment
        \<lparr>interpreters := [\<lparr>numSegments = Finite 4, running = True,
                           segmentEvents = [Finite 3]\<rparr>]\<rparr>, [])"
  using handleTransportServiceCommand_sessions
      [of 5 7 140 "replicate 40 0" emptyRegistry 120 "replicate 20 0"]
    handleTransportServiceCommand_sessions
      [of 5 7 140 "replicate 40 0" registryAfterFirstSegment 120 "replicate 20 0"]
  by (simp add: firstSegment_result subsequentSegment_result emptyRegistry_def
      registryAfterFirstSegment_def Math_ceil_divide Math_floor_divide interpreter_stop_def
      interpreter_send_def)


subsection \<open>Options\<close>

lemma findIndexFrom_first:
  "i < length xs \<Longrightarrow> p (xs ! i) \<Longrightarrow>
     (findIndexFrom s p xs = s + int i) = (\<forall>j<i. \<not> p (xs ! j))"
proof (induction xs arbitrary: s i)
  case Nil
  then show ?case by simp
next
  case (Cons x xs)
  show ?case
  proof (cases i)
    case 0
    with Cons.prems show ?thesis by simp
  next
    case (Suc k)
    show ?thesis
    proof (cases "p x")
      case True
      then show ?thesis using Suc by auto
    next
      case False
      have k: "k < length xs" "p (xs ! k)" using Cons.prems Suc by simp_all
      have "(findIndexFrom (s + 1) p xs = (s + 1) + int k) = (\<forall>j<k. \<not> p (xs ! j))"
        using Cons.IH [OF k] .
      moreover have "(\<forall>j<Suc k. \<not> p ((x # xs) ! j)) = (\<forall>j<k. \<not> p (xs ! j))"
        using False by (auto simp: less_Suc_eq_0_disj)
      ultimately show ?thesis using False Suc by (simp add: add.assoc)
    qed
  qed
qed

lemma findIndex_self:
  assumes "i < length keys" and "snd (keys ! i) = Some key"
  shows "(findIndex (\<lambda>(secClass, k). k = Some key) keys = int i) =
           (\<forall>j<i. snd (keys ! j) \<noteq> snd (keys ! i))"
proof -
  have "(\<lambda>(secClass, k). k = Some key) (keys ! i)"
    using assms(2) by (simp add: case_prod_beta)
  from findIndexFrom_first [OF assms(1), of "\<lambda>(secClass, k). k = Some key" 0, OF this]
  show ?thesis using assms(2) by (simp add: findIndex_def case_prod_beta)
qed

lemma checkSecurityKeysAt_char:
  assumes "\<forall>i \<in> set is. i < length keys"
    and "\<forall>i < length keys. snd (keys ! i) \<noteq> None"
  shows "checkSecurityKeysAt keys is =
           (if \<forall>i \<in> set is. (\<exists>key. snd (keys ! i) = Some key \<and> length key = 16)
                 \<and> (\<forall>j<i. snd (keys ! j) \<noteq> snd (keys ! i))
            then Inr () else Inl (ZWaveError Driver_InvalidOptions))"
  using assms(1)
proof (induction "is")
  case Nil
  then show ?case by simp
next
  case (Cons i rest)
  then have i: "i < length keys" by simp
  then obtain key where key: "snd (keys ! i) = Some key"
    using assms(2) by auto
  from findIndex_self [OF i key] Cons key show ?case by auto
qed

lemma distinct_by_earlier:
  "(\<forall>i<length xs. \<forall>j<i. xs ! j \<noteq> xs ! i) = distinct xs"
proof
  assume h: "\<forall>i<length xs. \<forall>j<i. xs ! j \<noteq> xs ! i"
  show "distinct xs"
    unfolding distinct_conv_nth
  proof (intro allI impI)
    fix i j
    assume "i < length xs" "j < length xs" "i \<noteq> j"
    then show "xs ! i \<noteq> xs ! j"
      using h by (cases "i < j") (auto simp: not_less le_less dest: sym)
  qed
next
  assume "distinct xs"
  then show "\<forall>i<length xs. \<forall>j<i. xs ! j \<noteq> xs ! i"
    by (auto simp: distinct_conv_nth)
qed

lemma checkSecurityKeys_char:
  assumes "list_all (\<lambda>(secClass, k). k \<noteq> None) keys"
  shows "checkSecurityKeys keys =
     (if keysValid (Some keys) then Inr () else Inl (ZWaveError Driver_InvalidOptions))"
proof -
  have given: "\<forall>i < length keys. snd (keys ! i) \<noteq> None"
    using assms by (auto simp: list_all_length case_prod_beta)
  have len: "(\<forall>i<length keys. \<exists>key. snd (keys ! i) = Some key \<and> length key = 16) =
          list_all (\<lambda>(secClass, k). case k of None \<Rightarrow> False | Some key \<Rightarrow> length key = 16) keys"
    by (auto simp: list_all_length case_prod_beta split: option.splits)
  have dist: "(\<forall>i<length keys. \<forall>j<i. snd (keys ! j) \<noteq> snd (keys ! i)) =
          distinct (map snd keys)"
    using distinct_by_earlier [of "map snd keys"] by simp
  have "(\<forall>i \<in> set [0..<length keys].
            (\<exists>key. snd (keys ! i) = Some key \<and> length key = 16)
          \<and> (\<forall>j<i. snd (keys ! j) \<noteq> snd (keys ! i)))
        = keysValid (Some keys)"
    using len dist by (auto simp: keysValid_def)
  then show ?thesis
    using checkSecurityKeysAt_char [of "[0..<length keys]" keys] given
    by (simp add: checkSecurityKeys_def)
qed

lemma js_less_given:
  "x \<noteq> NaN \<Longrightarrow> js_less x (Finite lo) = (\<not> atLeast_js lo x)"
  by (cases x) auto

lemma js_range_given:
  "x \<noteq> NaN \<Longrightarrow>
     (js_less x (Finite lo) \<or> js_greater x (Finite hi)) = (\<not> within_js lo hi x)"
  by (cases x) (auto simp: js_greater_def)

text \<open>
  Claim C9, amended. The options hold numbers, none of them \<^verbatim>\<open>NaN\<close>, and a key buffer
  for every security class that is listed. Then \<^verbatim>\<open>checkOptions\<close> throws, always with
  \<^verbatim>\<open>Driver_InvalidOptions\<close>, exactly when one of the values it checks is out of its
  range: the seven timeouts (\<^verbatim>\<open>timeouts.response\<close> must lie in 500..20000),
  \<^verbatim>\<open>attempts.controller\<close>, \<^verbatim>\<open>attempts.sendData\<close> and \<^verbatim>\<open>attempts.nodeInterview\<close>, the
  security keys, each of which must have 16 bytes and differ from every other key, and
  the inclusion callbacks, which, when the value is truthy, must be an object with all
  three functions. Options within these ranges pass. \<^verbatim>\<open>attempts.openSerialPort\<close> is not
  checked: the ranges of the spec's table are the checked ones together with
  \<^verbatim>\<open>attempts.openSerialPort\<close> being at least 1.
\<close>

theorem checkOptions_checkedRanges:
  assumes "numbersGiven options" and "keysGiven options"
  shows "checkOptions (Finite maxSend) options =
     (if checkedRanges maxSend options then Inr ()
      else Inl (ZWaveError Driver_InvalidOptions))
   \<and> (documentedRanges_spec maxSend options \<longleftrightarrow>
        checkedRanges maxSend options \<and> atLeast_js 1 (attempts_openSerialPort options))"
proof
  have keys: "(case securityKeys options of None \<Rightarrow> Inr () | Some keys \<Rightarrow> checkSecurityKeys keys)
      = (if keysValid (securityKeys options) then Inr ()
         else Inl (ZWaveError Driver_InvalidOptions))"
    using assms(2) checkSecurityKeys_char
    by (auto simp: keysGiven_def keysValid_def split: option.splits)
  have n: "timeouts_ack options \<noteq> NaN" "timeouts_byte options \<noteq> NaN"
      "timeouts_response options \<noteq> NaN" "timeouts_report options \<noteq> NaN"
      "timeouts_nonce options \<noteq> NaN" "timeouts_sendDataCallback options \<noteq> NaN"
      "timeouts_serialAPIStarted options \<noteq> NaN" "attempts_controller options \<noteq> NaN"
      "attempts_sendData options \<noteq> NaN" "attempts_nodeInterview options \<noteq> NaN"
    using assms(1) by (simp_all add: numbersGiven_def)
  have r1: "js_less (timeouts_ack options) (Finite 1) = (\<not> atLeast_js 1 (timeouts_ack options))"
    by (rule js_less_given) (rule n)
  have r2: "js_less (timeouts_byte options) (Finite 1) = (\<not> atLeast_js 1 (timeouts_byte options))"
    by (rule js_less_given) (rule n)
  have r3: "(js_less (timeouts_response options) (Finite 500) \<or>
              js_greater (timeouts_response options) (Finite 20000))
             = (\<not> within_js 500 20000 (timeouts_response options))"
    by (rule js_range_given) (rule n)
  have r4: "(js_less (timeouts_report options) (Finite 500) \<or>
              js_greater (timeouts_report options) (Finite 10000))
             = (\<not> within_js 500 10000 (timeouts_report options))"
    by (rule js_range_given) (rule n)
  have r5: "(js_less (timeouts_nonce options) (Finite 3000) \<or>
              js_greater (timeouts_nonce options) (Finite 20000))
             = (\<not> within_js 3000 20000 (timeouts_nonce options))"
    by (rule js_range_given) (rule n)
  have r6: "js_less (timeouts_sendDataCallback options) (Finite 10000)
             = (\<not> atLeast_js 10000 (timeouts_sendDataCallback options))"
    by (rule js_less_given) (rule n)
  have r7: "(js_less (timeouts_serialAPIStarted options) (Finite 1000) \<or>
              js_greater (timeouts_serialAPIStarted options) (Finite 30000))
             = (\<not> within_js 1000 30000 (timeouts_serialAPIStarted options))"
    by (rule js_range_given) (rule n)
  have r8: "(js_less (attempts_controller options) (Finite 1) \<or>
              js_greater (attempts_controller options) (Finite 3))
             = (\<not> within_js 1 3 (attempts_controller options))"
    by (rule js_range_given) (rule n)
  have r9: "(js_less (attempts_sendData options) (Finite 1) \<or>
              js_greater (attempts_sendData options) (Finite maxSend))
             = (\<not> within_js 1 maxSend (attempts_sendData options))"
    by (rule js_range_given) (rule n)
  have r10: "(js_less (attempts_nodeInterview options) (Finite 1) \<or>
              js_greater (attempts_nodeInterview options) (Finite 10))
             = (\<not> within_js 1 10 (attempts_nodeInterview options))"
    by (rule js_range_given) (rule n)
  show "checkOptions (Finite maxSend) options =
     (if checkedRanges maxSend options then Inr ()
      else Inl (ZWaveError Driver_InvalidOptions))"
    unfolding checkOptions_def keys r1 r2 r3 r4 r5 r6 r7 r8 r9 r10 checkedRanges_def
    by (cases "inclusionUserCallbacks options") simp_all
  show "documentedRanges_spec maxSend options \<longleftrightarrow>
        checkedRanges maxSend options \<and> atLeast_js 1 (attempts_openSerialPort options)"
    by (auto simp: documentedRanges_spec_def checkedRanges_def)
qed

text \<open>With \<^verbatim>\<open>attempts.openSerialPort\<close> at 0, outside the range of the spec's table, and
  every other option at its default, \<^verbatim>\<open>checkOptions\<close> does not throw.\<close>

theorem checkOptions_openSerialPort_counterexample:
  "checkOptions (Finite 5) (defaultOptions\<lparr>attempts_openSerialPort := Finite 0\<rparr>) = Inr ()
   \<and> \<not> documentedRanges_spec 5 (defaultOptions\<lparr>attempts_openSerialPort := Finite 0\<rparr>)"
  by (simp add: checkOptions_def documentedRanges_spec_def defaultOptions_def js_greater_def)

text \<open>The defaults pass; a response timeout of 499 or 20001, two equal keys, a key of
  15 bytes and callbacks that are no object are refused; two different keys of 16 bytes
  pass.\<close>

theorem checkOptions_checkedRanges_witness:
  "numbersGiven defaultOptions \<and> keysGiven defaultOptions
   \<and> checkOptions (Finite 5) defaultOptions = Inr ()
   \<and> checkOptions (Finite 5) (defaultOptions\<lparr>timeouts_response := Finite 499\<rparr>)
       = Inl (ZWaveError Driver_InvalidOptions)
   \<and> checkOptions (Finite 5) (defaultOptions\<lparr>timeouts_response := Finite 20001\<rparr>)
       = Inl (ZWaveError Driver_InvalidOptions)
   \<and> checkOptions (Finite 5) (defaultOptions\<lparr>securityKeys :=
         Some [(''S0_Legacy'', Some (replicate 16 1)),
               (''S2_Unauthenticated'', Some (replicate 16 1))]\<rparr>)
       = Inl (ZWaveError Driver_InvalidOptions)
   \<and> checkOptions (Finite 5) (defaultOptions\<lparr>securityKeys :=
         Some [(''S0_Legacy'', Some (replicate 16 1)),
               (''S2_Unauthenticated'', Some (replicate 16 2))]\<rparr>)
       = Inr ()
   \<and> checkOptions (Finite 5) (defaultOptions\<lparr>securityKeys :=
         Some [(''S0_Legacy'', Some (replicate 15 1))]\<rparr>)
       = Inl (ZWaveError Driver_InvalidOptions)
   \<and> checkOptions (Finite 5) (defaultOptions\<lparr>inclusionUserCallbacks := TruthyNonObject\<rparr>)
       = Inl (ZWaveError Driver_InvalidOptions)"
  using checkOptions_checkedRanges [of defaultOptions 5]
    checkOptions_checkedRanges [of "defaultOptions\<lparr>timeouts_response := Finite 499\<rparr>" 5]
  by (simp add: checkedRanges_def defaultOptions_def checkOptions_def checkSecurityKeys_def
      findIndex_def Let_def upt_rec numeral_eq_Suc numbersGiven_def keysGiven_def
      keysValid_def js_greater_def)

text \<open>Outside these inputs the comparisons do not decide: a response timeout of \<^verbatim>\<open>NaN\<close>
  is below no bound and above no bound, and a listed security class without a key buffer
  ends in a \<^verbatim>\<open>TypeError\<close>.\<close>

lemma checkOptions_NaN:
  "checkOptions (Finite 5) (defaultOptions\<lparr>timeouts_response := NaN\<rparr>) = Inr ()"
  by (simp add: checkOptions_def defaultOptions_def js_greater_def)

lemma checkOptions_undefined_key:
  "checkOptions (Finite 5) (defaultOptions\<lparr>securityKeys := Some [(''S0_Legacy'', None)]\<rparr>)
     = Inl (OtherError ''TypeError: Cannot read properties of undefined'')"
  by (simp add: checkOptions_def defaultOptions_def js_greater_def checkSecurityKeys_def)

subsection \<open>Dead nodes\<close>


lemma sendMessage_queue_not_dropped:
  "sendMessage_queue msg options node d \<noteq> Inl (ZWaveError Controller_MessageDropped)"
  by (auto simp: sendMessage_queue_def split: option.splits)

text \<open>
  Claim C10. The driver is ready and the message is a node query or holds a command,
  for a node that is dead. A message that is not a ping makes \<^verbatim>\<open>sendMessage\<close> ping
  the node first: when the ping fails it throws \<^verbatim>\<open>Controller_MessageDropped\<close>, when
  the ping succeeds it goes on as for any other node. A ping is not preceded by a ping
  and goes on likewise. \<^verbatim>\<open>Controller_MessageDropped\<close> is thrown only for a message that is
  not a ping and whose ping failed.
\<close>

theorem sendMessage_deadNode_ping:
  assumes "ensureReady d = None"
    and "isNodeQuery msg \<or> isCommandClassContainer msg"
    and "getNodeUnsafe d msg = Inr (Some node)"
    and "status node = Dead"
  shows "sendMessage msg options pingResult d =
           (if messageIsPing msg then ([], sendMessage_queue msg options (Some node) d)
            else if pingResult
            then ([PingNode (node_id node)], sendMessage_queue msg options (Some node) d)
            else ([PingNode (node_id node)], Inl (ZWaveError Controller_MessageDropped)))
       \<and> (snd (sendMessage msg options pingResult d) = Inl (ZWaveError Controller_MessageDropped)
            \<longleftrightarrow> \<not> messageIsPing msg \<and> \<not> pingResult)"
  using assms sendMessage_queue_not_dropped [of msg options "Some node" d]
  by (auto simp: sendMessage_def sendMessage_deadNode_def)

text \<open>Node 7 is dead: a command for it is dropped when the ping fails, queued when the
  ping succeeds, and a ping for it is queued without another ping.\<close>

theorem sendMessage_deadNode_ping_witness:
  "ensureReady exampleDriver = None
   \<and> getNodeUnsafe exampleDriver (sendData 7 leafCommand) = Inr (Some (exampleNode 7 Dead False))
   \<and> sendMessage (sendData 7 leafCommand) \<lparr>opt_priority = None, opt_supportCheck = None, opt_tag = None\<rparr>
        False exampleDriver = ([PingNode 7], Inl (ZWaveError Controller_MessageDropped))
   \<and> sendMessage (sendData 7 leafCommand) \<lparr>opt_priority = None, opt_supportCheck = None, opt_tag = None\<rparr>
        True exampleDriver = ([PingNode 7], Inr (Priority_Normal, None))
   \<and> sendMessage (pingMessage 7) \<lparr>opt_priority = None, opt_supportCheck = None, opt_tag = None\<rparr>
        False exampleDriver = ([], Inr (Priority_Ping, None))"
  using sendMessage_deadNode_ping [of exampleDriver "sendData 7 leafCommand"
      "exampleNode 7 Dead False" "\<lparr>opt_priority = None, opt_supportCheck = None, opt_tag = None\<rparr>" False]
    sendMessage_deadNode_ping [of exampleDriver "sendData 7 leafCommand"
      "exampleNode 7 Dead False" "\<lparr>opt_priority = None, opt_supportCheck = None, opt_tag = None\<rparr>" True]
    sendMessage_deadNode_ping [of exampleDriver "pingMessage 7"
      "exampleNode 7 Dead False" "\<lparr>opt_priority = None, opt_supportCheck = None, opt_tag = None\<rparr>" False]
  by (simp add: ensureReady_def getNodeUnsafe_def exampleDriver_def exampleController_def
      exampleNode_def sendData_def pingMessage_def getNodeId_def isCommandClassContainer_def
      isNodeQuery_def messageIsPing_def sendMessage_queue_def)


end
